theory Spec2Isabelle
  imports Complex_Main "HOL-Library.Word" "HOL-Library.AList" "HOL-Library.Log_Nat"
begin

unbundle bit_operations_syntax

section \<open>Text utilities\<close>

text \<open>
  Texts are modelled as \<open>string\<close> (lists of 8-bit characters): the ASCII fragment of
  Python's \<open>str\<close>.  \<open>str.lower()\<close> maps \<open>A..Z\<close> to \<open>a..z\<close> and leaves every other
  character alone.
\<close>

definition lower_char :: "char \<Rightarrow> char" where
  "lower_char c =
     (case map_of (zip ''ABCDEFGHIJKLMNOPQRSTUVWXYZ'' ''abcdefghijklmnopqrstuvwxyz'') c of
        None \<Rightarrow> c
      | Some d \<Rightarrow> d)"

definition py_lower :: "string \<Rightarrow> string" where
  "py_lower s = map lower_char s"

text \<open>\<open>starts_with p s\<close>: \<open>s.startswith(p)\<close>.\<close>

fun starts_with :: "string \<Rightarrow> string \<Rightarrow> bool" where
  "starts_with [] s = True"
| "starts_with (p # ps) [] = False"
| "starts_with (p # ps) (c # cs) = (p = c \<and> starts_with ps cs)"

text \<open>\<open>contains sub s\<close>: Python's \<open>sub in s\<close> on strings.\<close>

fun contains :: "string \<Rightarrow> string \<Rightarrow> bool" where
  "contains sub [] = (sub = [])"
| "contains sub (c # cs) = (starts_with sub (c # cs) \<or> contains sub cs)"

text \<open>\<open>any(k in s for k in ks)\<close>.\<close>

definition contains_any :: "string \<Rightarrow> string list \<Rightarrow> bool" where
  "contains_any s ks = list_ex (\<lambda>k. contains k s) ks"

definition head_opt :: "'a list \<Rightarrow> 'a option" where
  "head_opt xs = (case xs of [] \<Rightarrow> None | x # _ \<Rightarrow> Some x)"

text \<open>The index of the first element that passes a test.\<close>

fun first_match :: "('a \<Rightarrow> bool) \<Rightarrow> 'a list \<Rightarrow> nat option" where
  "first_match P [] = None"
| "first_match P (x # xs) =
     (if P x then Some 0 else map_option Suc (first_match P xs))"

text \<open>\<open>str(n)\<close> for a non-negative integer: its decimal digits.\<close>

definition digit_char :: "nat \<Rightarrow> char" where
  "digit_char d = ''0123456789'' ! d"

function dec :: "nat \<Rightarrow> string" where
  "dec n = (if n < 10 then [digit_char n] else dec (n div 10) @ [digit_char (n mod 10)])"
  by pat_completeness auto
termination
  by (relation "measure id") auto

declare dec.simps [simp del]

section \<open>Scene data model\<close>

text \<open>
  A scene specification is a JSON-like dictionary \<open>{"objects": [...]}\<close>.  Every key that
  the code reads with \<open>.get(key, default)\<close> or \<open>.setdefault\<close> is an optional field:
  \<open>None\<close> is the absent key.  Python floats are modelled by the rational numbers they
  denote.  A parameter value is a number or a string.  A transform entry is a list of
  numbers, or a string (the composite builders store a colour string there in a few
  recipes; \<open>len\<close> and indexing work on it character by character).
\<close>

datatype pval = Num rat | Str string

datatype vval = Vec "rat list" | Txt string

record transform =
  position :: "vval option"
  rotation :: "vval option"
  scale :: "vval option"

record obj =
  oid :: "string option"
  otype :: "string option"
  params :: "(string \<times> pval) list option"
  xform :: "transform option"

record spec =
  objects :: "obj list option"

text \<open>\<open>spec.get("objects", [])\<close>, and the same for a spec that may be \<open>None\<close> or
  empty (\<open>if spec: ...\<close>).\<close>

definition get_objects :: "spec \<Rightarrow> obj list" where
  "get_objects s = (case objects s of None \<Rightarrow> [] | Some os \<Rightarrow> os)"

definition spec_objects :: "spec option \<Rightarrow> obj list" where
  "spec_objects sp = (case sp of None \<Rightarrow> [] | Some s \<Rightarrow> get_objects s)"

text \<open>\<open>str(obj.get("id", ""))\<close> and \<open>str(obj.get("type", ""))\<close>.\<close>

definition id_str :: "obj \<Rightarrow> string" where
  "id_str ob = (case oid ob of None \<Rightarrow> [] | Some s \<Rightarrow> s)"

definition type_str :: "obj \<Rightarrow> string" where
  "type_str ob = (case otype ob of None \<Rightarrow> [] | Some s \<Rightarrow> s)"

section \<open>Floating-point numbers and errors\<close>

text \<open>
  A finite Python float is the rational number it denotes.  Every arithmetic operation
  rounds its exact result to the nearest number with a 53-bit significand, ties to even
  (\<open>fl\<close>).  The exponent is unbounded in the model: overflow to infinity and subnormal
  numbers are not represented.
\<close>

definition pow2 :: "int \<Rightarrow> rat" where
  "pow2 e = (if 0 \<le> e then 2 ^ nat e else 1 / 2 ^ nat (- e))"

text \<open>\<open>ilog2 x\<close> is the largest \<open>e\<close> with \<open>2 ^ e \<le> x\<close>, for positive \<open>x\<close>.\<close>

definition ilog2 :: "rat \<Rightarrow> int" where
  "ilog2 x = (let (p, q) = quotient_of x; a = bitlen p - bitlen q
              in if pow2 a \<le> x then a else a - 1)"

text \<open>Rounding to the nearest integer, ties to the even one.\<close>

definition rne :: "rat \<Rightarrow> int" where
  "rne x = (let f = \<lfloor>x\<rfloor>; d = x - of_int f
            in if d < 1 / 2 then f else if 1 / 2 < d then f + 1
               else if even f then f else f + 1)"

definition fl :: "rat \<Rightarrow> rat" where
  "fl x = (if x = 0 then 0
           else let u = pow2 (ilog2 \<bar>x\<bar> - 52) in of_int (rne (x / u)) * u)"

definition fadd :: "rat \<Rightarrow> rat \<Rightarrow> rat" where
  "fadd a b = fl (a + b)"

definition fsub :: "rat \<Rightarrow> rat \<Rightarrow> rat" where
  "fsub a b = fl (a - b)"

definition fmul :: "rat \<Rightarrow> rat \<Rightarrow> rat" where
  "fmul a b = fl (a * b)"

definition fdiv :: "rat \<Rightarrow> rat \<Rightarrow> rat" where
  "fdiv a b = fl (a / b)"

text \<open>\<open>math.pi\<close> is the double nearest to \<open>\<pi>\<close>; \<open>math.radians(x)\<close> is
  \<open>x * (math.pi / 180.0)\<close>.\<close>

definition math_pi :: rat where
  "math_pi = 884279719003555 / 281474976710656"

definition math_radians :: "rat \<Rightarrow> rat" where
  "math_radians x = fmul x (fdiv math_pi 180)"

datatype py_error = ValueError | TypeError | OverflowError

text \<open>Sequencing of computations that may raise.\<close>

definition bind_err :: "py_error + 'a \<Rightarrow> ('a \<Rightarrow> py_error + 'b) \<Rightarrow> py_error + 'b" where
  "bind_err m f = (case m of Inl e \<Rightarrow> Inl e | Inr x \<Rightarrow> f x)"

fun map_err :: "('a \<Rightarrow> py_error + 'b) \<Rightarrow> 'a list \<Rightarrow> py_error + 'b list" where
  "map_err f [] = Inr []"
| "map_err f (x # xs) =
     bind_err (f x) (\<lambda>y. bind_err (map_err f xs) (\<lambda>ys. Inr (y # ys)))"

text \<open>
  \<open>float(c)\<close> for a one-character string: a decimal digit converts, every other
  character raises \<open>ValueError\<close>.
\<close>

definition float_of_char :: "char \<Rightarrow> py_error + rat" where
  "float_of_char c =
     (case map_of (zip ''0123456789'' [0, 1, 2, 3, 4, 5, 6, 7, 8, 9]) c of
        None \<Rightarrow> Inl ValueError
      | Some d \<Rightarrow> Inr d)"

section \<open>Transform repair\<close>

text \<open>
  \<open>len(v)\<close> of a transform entry, and the repair
  \<open>[float(v[i]) if i < len(v) else d for i in range(3)]\<close> that \<open>_ensure_transform\<close>
  applies when the length is not 3.
\<close>

definition seq_len :: "vval \<Rightarrow> nat" where
  "seq_len v = (case v of Vec xs \<Rightarrow> length xs | Txt s \<Rightarrow> length s)"

definition float_item :: "vval \<Rightarrow> nat \<Rightarrow> py_error + rat" where
  "float_item v i = (case v of Vec xs \<Rightarrow> Inr (xs ! i) | Txt s \<Rightarrow> float_of_char (s ! i))"

definition repair :: "rat \<Rightarrow> vval \<Rightarrow> py_error + vval" where
  "repair d v =
     (if seq_len v \<noteq> 3
      then bind_err (map_err (\<lambda>i. if i < seq_len v then float_item v i else Inr d) [0, 1, 2])
             (\<lambda>xs. Inr (Vec xs))
      else Inr v)"

text \<open>
  \<open>_ensure_transform\<close> fills in the missing keys, repairs the three entries in the
  order position, rotation, scale, and returns the transform.  The model returns the
  three entries; \<open>with_xf\<close> is the object as the call leaves it.
\<close>

definition get_position :: "obj \<Rightarrow> vval" where
  "get_position ob =
     (case xform ob of None \<Rightarrow> Vec [0, 0, 0]
      | Some t \<Rightarrow> (case position t of None \<Rightarrow> Vec [0, 0, 0] | Some v \<Rightarrow> v))"

definition get_rotation :: "obj \<Rightarrow> vval" where
  "get_rotation ob =
     (case xform ob of None \<Rightarrow> Vec [0, 0, 0]
      | Some t \<Rightarrow> (case rotation t of None \<Rightarrow> Vec [0, 0, 0] | Some v \<Rightarrow> v))"

definition get_scale :: "obj \<Rightarrow> vval" where
  "get_scale ob =
     (case xform ob of None \<Rightarrow> Vec [1, 1, 1]
      | Some t \<Rightarrow> (case scale t of None \<Rightarrow> Vec [1, 1, 1] | Some v \<Rightarrow> v))"

definition with_xf :: "obj \<Rightarrow> vval \<times> vval \<times> vval \<Rightarrow> obj" where
  "with_xf ob t = (case t of (p, r, s) \<Rightarrow>
     ob\<lparr>xform := Some \<lparr>position = Some p, rotation = Some r, scale = Some s\<rparr>\<rparr>)"

definition ensure_transform :: "obj \<Rightarrow> py_error + (vval \<times> vval \<times> vval)" where
  "ensure_transform ob =
     bind_err (repair 0 (get_position ob)) (\<lambda>p.
     bind_err (repair 0 (get_rotation ob)) (\<lambda>r.
     bind_err (repair 1 (get_scale ob)) (\<lambda>s. Inr (p, r, s))))"

section \<open>Regular expressions\<close>

text \<open>
  The patterns the code hands to Python's \<open>re\<close> module are written as terms of \<open>rx\<close>
  and run by a backtracking matcher with the semantics of \<open>re\<close>: alternatives are tried
  from left to right, quantifiers are greedy, and the first way to match wins.  A match
  state is the current position and the spans of the groups matched so far.
\<close>

datatype rx =
    Cls string
  | NCls string
  | Seq rx rx
  | Alt rx rx
  | Opt rx
  | Star rx
  | Rep nat rx
  | Grp nat rx
  | WordB
  | Eos

type_synonym mstate = "nat \<times> (nat \<times> nat \<times> nat) list"

text \<open>Greedy repetition, at most \<open>n\<close> times; an iteration has to consume a character
  (every repeated sub-pattern of the code does).\<close>

primrec rep_loop ::
  "nat \<Rightarrow> (mstate \<Rightarrow> (mstate \<Rightarrow> mstate option) \<Rightarrow> mstate option) \<Rightarrow>
     mstate \<Rightarrow> (mstate \<Rightarrow> mstate option) \<Rightarrow> mstate option" where
  "rep_loop 0 body st k = k st"
| "rep_loop (Suc n) body st k =
     (case body st (\<lambda>st'. if fst st < fst st' then rep_loop n body st' k else None) of
        Some r \<Rightarrow> Some r
      | None \<Rightarrow> k st)"

definition char_at :: "string \<Rightarrow> nat \<Rightarrow> char option" where
  "char_at s i = (if i < length s then Some (s ! i) else None)"

definition char_before :: "string \<Rightarrow> nat \<Rightarrow> char option" where
  "char_before s i = (if 0 < i \<and> i \<le> length s then Some (s ! (i - 1)) else None)"

definition is_word_char :: "char \<Rightarrow> bool" where
  "is_word_char c =
     (c \<in> set ''abcdefghijklmnopqrstuvwxyzABCDEFGHIJKLMNOPQRSTUVWXYZ0123456789_'')"

definition is_word_opt :: "char option \<Rightarrow> bool" where
  "is_word_opt c = (case c of None \<Rightarrow> False | Some x \<Rightarrow> is_word_char x)"

text \<open>
  \<open>\b\<close>: a position is a word boundary when exactly one of the characters around it
  is a word character (a letter, a digit or the underscore); the ends of the text count
  as non-word.
\<close>

definition boundary :: "char option \<Rightarrow> char option \<Rightarrow> bool" where
  "boundary prev nxt = (is_word_opt prev \<noteq> is_word_opt nxt)"

primrec rmatch ::
  "rx \<Rightarrow> string \<Rightarrow> mstate \<Rightarrow> (mstate \<Rightarrow> mstate option) \<Rightarrow> mstate option" where
  "rmatch (Cls cs) = (\<lambda>s st k.
     case char_at s (fst st) of
       None \<Rightarrow> None
     | Some c \<Rightarrow> if c \<in> set cs then k (fst st + 1, snd st) else None)"
| "rmatch (NCls cs) = (\<lambda>s st k.
     case char_at s (fst st) of
       None \<Rightarrow> None
     | Some c \<Rightarrow> if c \<notin> set cs then k (fst st + 1, snd st) else None)"
| "rmatch (Seq a b) = (\<lambda>s st k. rmatch a s st (\<lambda>st'. rmatch b s st' k))"
| "rmatch (Alt a b) = (\<lambda>s st k.
     case rmatch a s st k of Some r \<Rightarrow> Some r | None \<Rightarrow> rmatch b s st k)"
| "rmatch (Opt a) = (\<lambda>s st k.
     case rmatch a s st k of Some r \<Rightarrow> Some r | None \<Rightarrow> k st)"
| "rmatch (Star a) = (\<lambda>s st k. rep_loop (length s) (rmatch a s) st k)"
| "rmatch (Rep n a) = (\<lambda>s st k. rep_loop n (rmatch a s) st k)"
| "rmatch (Grp g a) = (\<lambda>s st k.
     rmatch a s st (\<lambda>st'. k (fst st', (g, fst st, fst st') # snd st')))"
| "rmatch WordB = (\<lambda>s st k.
     if boundary (char_before s (fst st)) (char_at s (fst st)) then k st else None)"
| "rmatch Eos = (\<lambda>s st k. if fst st = length s then k st else None)"

text \<open>A literal word, one or more repetitions, and the character classes of \<open>re\<close>
  (ASCII).\<close>

definition seqs :: "rx list \<Rightarrow> rx" where
  "seqs rs = foldr Seq (butlast rs) (last rs)"

definition lit :: "string \<Rightarrow> rx" where
  "lit w = seqs (map (\<lambda>c. Cls [c]) w)"

definition plus_rx :: "rx \<Rightarrow> rx" where
  "plus_rx r = Seq r (Star r)"

definition digits :: string where
  "digits = ''0123456789''"

definition whitespace :: string where
  "whitespace = [CHR '' '', CHR 0x09, CHR 0x0A, CHR 0x0B, CHR 0x0C, CHR 0x0D,
                 CHR 0x1C, CHR 0x1D, CHR 0x1E, CHR 0x1F]"

definition word_chars :: string where
  "word_chars = ''abcdefghijklmnopqrstuvwxyzABCDEFGHIJKLMNOPQRSTUVWXYZ0123456789_''"

text \<open>A match: its start, its end and the groups.\<close>

definition match_at :: "rx \<Rightarrow> string \<Rightarrow> nat \<Rightarrow> (nat \<times> mstate) option" where
  "match_at r s i = map_option (\<lambda>st. (i, st)) (rmatch r s (i, []) Some)"

text \<open>\<open>re.search\<close>: the match at the leftmost position that has one.\<close>

definition re_search :: "rx \<Rightarrow> string \<Rightarrow> (nat \<times> mstate) option" where
  "re_search r s =
     (case filter (\<lambda>i. match_at r s i \<noteq> None) [0..<length s + 1] of
        [] \<Rightarrow> None
      | i # _ \<Rightarrow> match_at r s i)"

definition substr :: "string \<Rightarrow> nat \<Rightarrow> nat \<Rightarrow> string" where
  "substr s i j = take (j - i) (drop i s)"

text \<open>\<open>match.group(g)\<close> for a group that took part in the match.\<close>

definition group :: "string \<Rightarrow> nat \<times> mstate \<Rightarrow> nat \<Rightarrow> string" where
  "group s m g =
     (case map_of (snd (snd m)) g of None \<Rightarrow> [] | Some (i, j) \<Rightarrow> substr s i j)"

text \<open>
  \<open>re.findall\<close> for a pattern without groups that never matches the empty string: the
  matched substrings from left to right, each search starting behind the last match.
  The first argument bounds the number of steps by the length of the text.
\<close>

fun findall_from :: "nat \<Rightarrow> rx \<Rightarrow> string \<Rightarrow> nat \<Rightarrow> string list" where
  "findall_from 0 r s i = []"
| "findall_from (Suc n) r s i =
     (if length s < i then []
      else case match_at r s i of
             None \<Rightarrow> findall_from n r s (i + 1)
           | Some (st, e, gs) \<Rightarrow>
               substr s st e # findall_from n r s (if st < e then e else i + 1))"

definition re_findall :: "rx \<Rightarrow> string \<Rightarrow> string list" where
  "re_findall r s = findall_from (length s + 1) r s 0"

section \<open>Lexical helpers\<close>

text \<open>\<open>" ".join(text.lower().split())\<close>: lower the text, split it at runs of
  whitespace, join the words with single blanks.\<close>

fun split_ws :: "string \<Rightarrow> string \<Rightarrow> string list" where
  "split_ws cur [] = (if cur = [] then [] else [cur])"
| "split_ws cur (c # cs) =
     (if c \<in> set whitespace
      then (if cur = [] then split_ws [] cs else cur # split_ws [] cs)
      else split_ws (cur @ [c]) cs)"

fun join_blank :: "string list \<Rightarrow> string" where
  "join_blank [] = []"
| "join_blank [w] = w"
| "join_blank (w # ws) = w @ '' '' @ join_blank ws"

definition normalize :: "string \<Rightarrow> string" where
  "normalize text = join_blank (split_ws [] (py_lower text))"

text \<open>
  \<open>float(s)\<close> for a text matched by the number pattern: an optional sign, digits, and
  optionally a point followed by digits.  The value is the decimal number, rounded to
  the nearest double.
\<close>

definition digit_val :: "char \<Rightarrow> nat" where
  "digit_val c = (case map_of (zip ''0123456789'' [0, 1, 2, 3, 4, 5, 6, 7, 8, 9]) c of
                    None \<Rightarrow> 0 | Some d \<Rightarrow> d)"

definition digits_val :: "string \<Rightarrow> int" where
  "digits_val ds = foldl (\<lambda>acc c. acc * 10 + int (digit_val c)) 0 ds"

definition float_of_decimal :: "string \<Rightarrow> rat" where
  "float_of_decimal s =
     (let neg = (head_opt s = Some CHR ''-'');
          body = (if head_opt s = Some CHR ''-'' \<or> head_opt s = Some CHR ''+'' then tl s else s);
          ip = takeWhile (\<lambda>c. c \<noteq> CHR ''.'') body;
          fp = drop (length ip + 1) body;
          v = of_int (digits_val ip) + of_int (digits_val fp) / 10 ^ length fp
      in fl (if neg then - v else v))"

text \<open>The number pattern \<open>[-+]?\d*\.?\d+\<close>.\<close>

definition number_rx :: rx where
  "number_rx = seqs [Opt (Cls ''-+''), Star (Cls digits), Opt (Cls ''.''), plus_rx (Cls digits)]"

definition extract_numbers :: "string \<Rightarrow> rat list" where
  "extract_numbers text = map float_of_decimal (re_findall number_rx text)"

text \<open>The pattern
  \<open>(?:at|to)\s*\(?\s*([-+]?\d*\.?\d+)\s*[,\s]+([-+]?\d*\.?\d+)\s*[,\s]+([-+]?\d*\.?\d+)\<close>.\<close>

definition triplet_rx :: rx where
  "triplet_rx = seqs
     [Alt (lit ''at'') (lit ''to''), Star (Cls whitespace),
      Opt (Cls ''(''), Star (Cls whitespace), Grp 1 number_rx,
      Star (Cls whitespace), plus_rx (Cls (CHR '','' # whitespace)), Grp 2 number_rx,
      Star (Cls whitespace), plus_rx (Cls (CHR '','' # whitespace)), Grp 3 number_rx]"

definition extract_position_triplet :: "string \<Rightarrow> rat list option" where
  "extract_position_triplet text =
     (case re_search triplet_rx text of
        None \<Rightarrow> None
      | Some m \<Rightarrow> Some [float_of_decimal (group text m 1), float_of_decimal (group text m 2),
                        float_of_decimal (group text m 3)])"

section \<open>Keyword tables\<close>

text \<open>\<open>COLOR_KEYWORDS\<close>, in the order of the dictionary.\<close>

definition COLOR_KEYWORDS :: "(string \<times> string) list" where
  "COLOR_KEYWORDS =
     [(''bright red'', ''#ff4b5c''), (''red'', ''#ff4b5c''), (''blue'', ''#3d7eff''),
      (''navy'', ''#2b4c9a''), (''light blue'', ''#7ab8ff''), (''green'', ''#34c759''),
      (''lime'', ''#a8f152''), (''emerald'', ''#2ecc71''), (''yellow'', ''#ffd60a''),
      (''gold'', ''#f5c542''), (''orange'', ''#ff8c42''), (''purple'', ''#a855f7''),
      (''violet'', ''#8f5bff''), (''pink'', ''#ff5fa2''), (''magenta'', ''#ff2d95''),
      (''cyan'', ''#4dd0e1''), (''aqua'', ''#4dd0e1''), (''turquoise'', ''#2ad7b6''),
      (''white'', ''#f5f5f5''), (''black'', ''#111111''), (''gray'', ''#8e8e93''),
      (''grey'', ''#8e8e93''), (''silver'', ''#b0b8c5''), (''bronze'', ''#b07d3c''),
      (''copper'', ''#b87333''), (''teal'', ''#3cc1b3''), (''brown'', ''#8b5a2b'')]"

definition TYPE_SYNONYMS :: "(string \<times> string list) list" where
  "TYPE_SYNONYMS =
     [(''box'', [''box'', ''cube'', ''block'', ''rect'', ''rectangle'', ''rectangular'']),
      (''cylinder'', [''cylinder'', ''tube'', ''pipe'', ''column'']),
      (''sphere'', [''sphere'', ''ball'', ''orb'', ''globe'']),
      (''plane'', [''plane'', ''sheet'', ''panel'', ''floor'', ''ground'', ''surface'']),
      (''cone'', [''cone'', ''pyramid'']),
      (''torus'', [''torus'', ''ring'', ''donut'', ''doughnut'']),
      (''torusknot'', [''torus knot'', ''torusknot'', ''knot'']),
      (''external_model'', [''model'', ''import'', ''mesh'', ''gltf'', ''obj'', ''asset'']),
      (''assembly'', [''assembly'', ''mechanism'', ''robot hand'', ''robotic hand'', ''gripper'',
                      ''end effector'', ''bicycle'', ''bike''])]"

definition ORDINAL_KEYWORDS :: "(string \<times> int) list" where
  "ORDINAL_KEYWORDS =
     [(''first'', 0), (''1st'', 0), (''second'', 1), (''2nd'', 1), (''third'', 2), (''3rd'', 2),
      (''fourth'', 3), (''4th'', 3), (''fifth'', 4), (''5th'', 4),
      (''last'', -1), (''final'', -1), (''previous'', -1), (''current'', -1)]"

section \<open>Colour mentions\<close>

definition last_opt :: "'a list \<Rightarrow> 'a option" where
  "last_opt xs = (if xs = [] then None else Some (last xs))"

text \<open>
  \<open>word_match_at key prev rest\<close>: the pattern \<open>\bkey\b\<close> matches at the start of
  \<open>rest\<close>, \<open>prev\<close> being the character in front of it.
\<close>

definition word_match_at :: "string \<Rightarrow> char option \<Rightarrow> string \<Rightarrow> bool" where
  "word_match_at key prev rest =
     (starts_with key rest \<and>
      boundary prev (head_opt key) \<and>
      boundary (last_opt key) (head_opt (drop (length key) rest)))"

text \<open>
  \<open>finditer\<close> for \<open>\bkey\b\<close> with a non-empty key: the start positions of the matches
  from left to right; after a match the search goes on behind it (\<open>skip\<close> counts the
  characters still covered by the last match).
\<close>

fun word_scan :: "string \<Rightarrow> char option \<Rightarrow> string \<Rightarrow> nat \<Rightarrow> nat \<Rightarrow> nat list" where
  "word_scan key prev [] i skip = []"
| "word_scan key prev (c # cs) i skip =
     (if skip = 0 \<and> word_match_at key prev (c # cs)
      then i # word_scan key (Some c) cs (i + 1) (length key - 1)
      else word_scan key (Some c) cs (i + 1) (skip - 1))"

definition word_matches :: "string \<Rightarrow> string \<Rightarrow> nat list" where
  "word_matches key s = word_scan key None s 0 0"

text \<open>\<open>sorted(COLOR_KEYWORDS.items(), key=lambda kv: -len(kv[0]))\<close>: longest names
  first, names of equal length in table order (the sort is stable).\<close>

definition colors_by_length :: "(string \<times> string) list" where
  "colors_by_length = sort_key (\<lambda>kv. - int (length (fst kv))) COLOR_KEYWORDS"

text \<open>
  The state of the loops of \<open>_color_mentions\<close> is the list of used positions and the
  mentions found so far.  A match that touches a used position is skipped.
\<close>

definition mention_step ::
  "string \<Rightarrow> string \<Rightarrow> nat list \<times> (nat \<times> string) list \<Rightarrow> nat \<Rightarrow> nat list \<times> (nat \<times> string) list"
  where
  "mention_step key color st start =
     (case st of (used, mentions) \<Rightarrow>
        if list_ex (\<lambda>i. i \<in> set used) [start..<start + length key] then (used, mentions)
        else (used @ [start..<start + length key], mentions @ [(start, color)]))"

definition mention_key ::
  "string \<Rightarrow> nat list \<times> (nat \<times> string) list \<Rightarrow> string \<times> string \<Rightarrow> nat list \<times> (nat \<times> string) list"
  where
  "mention_key lowered st kv =
     foldl (mention_step (fst kv) (snd kv)) st (word_matches (fst kv) lowered)"

definition color_mentions :: "string \<Rightarrow> (nat \<times> string) list" where
  "color_mentions text =
     sort_key fst (snd (foldl (mention_key (py_lower text)) ([], []) colors_by_length))"

definition mentioned_colors :: "string \<Rightarrow> string list" where
  "mentioned_colors text = map snd (color_mentions text)"

section \<open>Target resolver\<close>

definition match_type :: "string \<Rightarrow> string \<Rightarrow> bool" where
  "match_type type_name text =
     (case map_of TYPE_SYNONYMS type_name of
        None \<Rightarrow> contains type_name text
      | Some synonyms \<Rightarrow> contains_any text synonyms)"

text \<open>
  \<open>str(obj.get("params", {}).get("color", ""))\<close>.  The text of a number is never a
  colour code of the table, so a numeric value is rendered as the empty string, which
  earns no bonus either.
\<close>

definition color_str :: "obj \<Rightarrow> string" where
  "color_str ob =
     (case params ob of
        None \<Rightarrow> []
      | Some ps \<Rightarrow> (case map_of ps ''color'' of Some (Str c) \<Rightarrow> c | _ \<Rightarrow> []))"

text \<open>\<open>color_order\<close>: the index of the first mention of a colour.\<close>

definition id_bonus :: "string \<Rightarrow> obj \<Rightarrow> int" where
  "id_bonus lowered ob =
     (let obj_id = py_lower (id_str ob)
      in if obj_id \<noteq> [] \<and> contains obj_id lowered then 5 else 0)"

definition type_bonus :: "string \<Rightarrow> obj \<Rightarrow> int" where
  "type_bonus lowered ob =
     (let obj_type = py_lower (type_str ob)
      in if obj_type \<noteq> [] \<and> match_type obj_type lowered then 3 else 0)"

definition color_bonus :: "string list \<Rightarrow> obj \<Rightarrow> int" where
  "color_bonus colors ob =
     (let obj_color = py_lower (color_str ob)
      in if obj_color = [] then 0
         else (case first_match (\<lambda>c. c = obj_color) colors of
                 Some order_idx \<Rightarrow> max 1 (6 - min (int order_idx) 5)
               | None \<Rightarrow> if obj_color \<in> set colors then 3 else 0))"

definition ordinal_bonus :: "string \<Rightarrow> nat \<Rightarrow> nat \<Rightarrow> int" where
  "ordinal_bonus lowered n idx =
     (\<Sum>(word, ordinal_index) \<leftarrow> ORDINAL_KEYWORDS.
        if contains word lowered \<and>
           (if 0 \<le> ordinal_index then ordinal_index else int n - 1) = int idx
        then 2 else 0)"

definition target_score :: "string \<Rightarrow> obj list \<Rightarrow> nat \<Rightarrow> int" where
  "target_score text obs idx =
     (let lowered = py_lower text; ob = obs ! idx
      in id_bonus lowered ob + type_bonus lowered ob +
         color_bonus (mentioned_colors text) ob + ordinal_bonus lowered (length obs) idx)"

text \<open>The positions of the targets in the object list, in the order of the result.\<close>

definition target_indices :: "obj list \<Rightarrow> string \<Rightarrow> bool \<Rightarrow> nat list" where
  "target_indices obs text fallback =
     (if obs = [] then []
      else
        let matches = filter (\<lambda>i. 0 < target_score text obs i) [0..<length obs]
        in if matches \<noteq> [] then sort_key (\<lambda>i. - target_score text obs i) matches
           else if fallback then [length obs - 1]
           else [])"

definition find_targets :: "spec option \<Rightarrow> string \<Rightarrow> bool \<Rightarrow> obj list" where
  "find_targets sp text fallback =
     map (\<lambda>i. spec_objects sp ! i) (target_indices (spec_objects sp) text fallback)"

section \<open>Mutators work on references\<close>

text \<open>
  The mutators receive a list of references to scene objects and update the objects in
  place.  The model keeps the objects in a store (a list indexed by address); a target
  list is a list of addresses, always addresses of stored objects.  \<open>for_each f targets h\<close>
  is the loop \<open>for obj in targets: f(obj)\<close>; an exception ends it.
\<close>

fun for_each :: "(obj \<Rightarrow> py_error + obj) \<Rightarrow> nat list \<Rightarrow> obj list \<Rightarrow> py_error + obj list" where
  "for_each f [] h = Inr h"
| "for_each f (a # as) h = bind_err (f (h ! a)) (\<lambda>ob. for_each f as (h[a := ob]))"

section \<open>Rotation mutator\<close>

definition rotation_words :: "string list" where
  "rotation_words = [''rotate'', ''rotation'', ''twist'', ''spin'', ''turn'']"

definition ROTATION_AXIS_HINTS :: "(string \<times> nat) list" where
  "ROTATION_AXIS_HINTS =
     [(''x'', 0), (''x-axis'', 0), (''roll'', 0),
      (''y'', 1), (''y-axis'', 1), (''yaw'', 1),
      (''z'', 2), (''z-axis'', 2), (''pitch'', 2)]"

text \<open>The first hint of the table (in its order) that occurs in the text; axis 1
  without one.\<close>

definition rotation_axis :: "string \<Rightarrow> nat" where
  "rotation_axis lowered =
     (case find (\<lambda>(hint, idx). contains hint lowered) ROTATION_AXIS_HINTS of
        None \<Rightarrow> 1
      | Some (hint, idx) \<Rightarrow> idx)"

text \<open>\<open>v[i] = x\<close>: a list is updated, a string raises \<open>TypeError\<close>.\<close>

definition set_item :: "vval \<Rightarrow> nat \<Rightarrow> rat \<Rightarrow> py_error + vval" where
  "set_item v i x = (case v of Vec xs \<Rightarrow> Inr (Vec (xs[i := x])) | Txt s \<Rightarrow> Inl TypeError)"

text \<open>The body of the loop of \<open>_apply_rotation_change\<close> for one target.\<close>

definition rotate_obj :: "nat \<Rightarrow> rat \<Rightarrow> bool \<Rightarrow> obj \<Rightarrow> py_error + obj" where
  "rotate_obj axis_index radians add_mode ob =
     bind_err (ensure_transform ob) (\<lambda>(p, r, s).
     bind_err (if add_mode
               then bind_err (float_item r axis_index) (\<lambda>v. Inr (fadd v radians))
               else Inr radians) (\<lambda>new.
     bind_err (set_item r axis_index new) (\<lambda>r'. Inr (with_xf ob (p, r', s)))))"

definition first_or :: "rat list \<Rightarrow> rat \<Rightarrow> rat" where
  "first_or numbers d = (case numbers of [] \<Rightarrow> d | n # ns \<Rightarrow> n)"

definition apply_rotation_change ::
  "obj list \<Rightarrow> nat list \<Rightarrow> string \<Rightarrow> rat list \<Rightarrow> py_error + (obj list \<times> bool)" where
  "apply_rotation_change h targets text numbers =
     (let lowered = py_lower text in
      if \<not> contains_any lowered rotation_words then Inr (h, False)
      else
        let axis_index = rotation_axis lowered;
            degrees = first_or numbers 90;
            radians = math_radians degrees;
            add_mode = (contains ''by'' lowered \<or> contains ''+='' lowered)
        in bind_err (for_each (rotate_obj axis_index radians add_mode) targets h)
             (\<lambda>h'. Inr (h', targets \<noteq> [])))"

text \<open>\<open>_default_transform()\<close>.\<close>

definition default_transform :: transform where
  "default_transform =
     \<lparr>position = Some (Vec [0, 0, 0]), rotation = Some (Vec [0, 0, 0]),
      scale = Some (Vec [1, 1, 1])\<rparr>"

section \<open>Removal handler\<close>

text \<open>The test of the loop of \<open>_apply_removal\<close> for one object: its non-empty id,
  lowered, occurs in the text, or its non-empty type occurs in the text.\<close>

definition removal_match :: "string \<Rightarrow> obj \<Rightarrow> bool" where
  "removal_match low ob =
     ((id_str ob \<noteq> [] \<and> contains (py_lower (id_str ob)) low) \<or>
      (type_str ob \<noteq> [] \<and> contains (type_str ob) low))"

text \<open>The index that is popped: the first object that passes the test, the last
  object without one.\<close>

definition removal_index :: "string \<Rightarrow> obj list \<Rightarrow> nat" where
  "removal_index low obs =
     (case first_match (removal_match low) obs of None \<Rightarrow> length obs - 1 | Some i \<Rightarrow> i)"

definition pop_at :: "nat \<Rightarrow> 'a list \<Rightarrow> 'a list" where
  "pop_at i xs = take i xs @ drop (Suc i) xs"

definition clear_words :: "string list" where
  "clear_words = [''clear'', ''reset'', ''start over'']"

definition remove_words :: "string list" where
  "remove_words = [''remove'', ''delete'', ''drop'']"


section \<open>Identifier generation\<close>

text \<open>
  \<open>_generate_id\<close> collects the non-empty ids of the scene and counts up from 1 until
  \<open>base + str(index)\<close> is unused.
\<close>

definition existing_ids :: "spec option \<Rightarrow> string list" where
  "existing_ids sp = filter (\<lambda>s. s \<noteq> []) (map id_str (spec_objects sp))"

lemma dec_length_bound: "n < 10 ^ length (dec n)"
proof (induction n rule: dec.induct)
  case (1 n)
  show ?case
  proof (cases "n < 10")
    case True
    then show ?thesis by (subst dec.simps) simp
  next
    case False
    then have "n div 10 < 10 ^ length (dec (n div 10))" using 1 by simp
    then have "n < 10 * 10 ^ length (dec (n div 10))" by linarith
    with False show ?thesis by (subst dec.simps) simp
  qed
qed

lemma length_le_sum_list: "x \<in> set xs \<Longrightarrow> length x \<le> sum_list (map length xs)"
  by (induction xs) auto

function id_loop :: "string \<Rightarrow> string list \<Rightarrow> nat \<Rightarrow> string" where
  "id_loop base existing index =
     (if base @ dec index \<in> set existing then id_loop base existing (index + 1)
      else base @ dec index)"
  by pat_completeness auto
termination
proof (relation "measure (\<lambda>(base, existing, index). 10 ^ sum_list (map length existing) - index)")
  show "wf (measure (\<lambda>(base, existing, index). 10 ^ sum_list (map length existing) - index))"
    by simp
next
  fix base :: string and existing :: "string list" and index :: nat
  assume mem: "base @ dec index \<in> set existing"
  have "length (dec index) \<le> length (base @ dec index)" by simp
  also have "\<dots> \<le> sum_list (map length existing)" using mem by (rule length_le_sum_list)
  finally have "(10::nat) ^ length (dec index) \<le> 10 ^ sum_list (map length existing)"
    by (simp add: power_increasing)
  with dec_length_bound [of index] have "index < 10 ^ sum_list (map length existing)"
    by linarith
  then show "((base, existing, index + 1), (base, existing, index))
      \<in> measure (\<lambda>(base, existing, index). 10 ^ sum_list (map length existing) - index)"
    by simp
qed

declare id_loop.simps [simp del]

definition generate_id :: "string \<Rightarrow> spec option \<Rightarrow> string" where
  "generate_id base sp = id_loop base (existing_ids sp) 1"

text \<open>
  Adding an object: \<open>_build_new_object\<close> takes the id from \<open>_generate_id(base, spec)\<close>
  before the caller appends the object to \<open>spec["objects"]\<close>.
\<close>

definition add_with_base :: "string \<Rightarrow> obj \<Rightarrow> spec \<Rightarrow> spec" where
  "add_with_base base ob s =
     s\<lparr>objects := Some (get_objects s @ [ob\<lparr>oid := Some (generate_id base (Some s))\<rparr>])\<rparr>"

definition add_all :: "string \<Rightarrow> obj list \<Rightarrow> spec \<Rightarrow> spec" where
  "add_all base obs s = foldl (\<lambda>s ob. add_with_base base ob s) s obs"

definition empty_spec :: spec where
  "empty_spec = \<lparr>objects = Some []\<rparr>"

subsection \<open>Decimal rendering is injective\<close>

lemma digit_char_inj: "a < 10 \<Longrightarrow> b < 10 \<Longrightarrow> digit_char a = digit_char b \<Longrightarrow> a = b"
proof -
  assume a: "a < 10" and b: "b < 10" and eq: "digit_char a = digit_char b"
  have "distinct ''0123456789''" by simp
  moreover have "a < length ''0123456789''" "b < length ''0123456789''" using a b by simp_all
  ultimately show "a = b" using eq unfolding digit_char_def by (simp only: nth_eq_iff_index_eq)
qed

lemma dec_nonempty: "dec n \<noteq> []"
  by (subst dec.simps) simp

lemma dec_small: "n < 10 \<Longrightarrow> dec n = [digit_char n]"
  by (subst dec.simps) simp

lemma dec_large: "\<not> n < 10 \<Longrightarrow> dec n = dec (n div 10) @ [digit_char (n mod 10)]"
  by (subst dec.simps) simp

lemma dec_inj: "dec m = dec n \<Longrightarrow> m = n"
proof (induction n arbitrary: m rule: dec.induct)
  case (1 n)
  show ?case
  proof (cases "n < 10")
    case nsmall: True
    show ?thesis
    proof (cases "m < 10")
      case True
      with nsmall "1.prems" show ?thesis by (simp add: dec_small digit_char_inj)
    next
      case False
      with nsmall "1.prems" have "dec (m div 10) = []" by (simp add: dec_small dec_large)
      then show ?thesis by (simp add: dec_nonempty)
    qed
  next
    case nlarge: False
    show ?thesis
    proof (cases "m < 10")
      case True
      with nlarge "1.prems" have "dec (n div 10) = []" by (simp add: dec_small dec_large)
      then show ?thesis by (simp add: dec_nonempty)
    next
      case False
      with nlarge "1.prems" have eq: "dec (m div 10) = dec (n div 10)"
        and d: "digit_char (m mod 10) = digit_char (n mod 10)"
        by (simp_all add: dec_large)
      from eq nlarge have "m div 10 = n div 10" by (rule "1.IH" [rotated])
      moreover from d have "m mod 10 = n mod 10" by (intro digit_char_inj) simp_all
      ultimately show ?thesis by (metis div_mult_mod_eq)
    qed
  qed
qed

subsection \<open>What the counting loop returns\<close>

lemma id_loop_char:
  "\<exists>n\<ge>index. id_loop base existing index = base @ dec n \<and> base @ dec n \<notin> set existing \<and>
     (\<forall>m. index \<le> m \<and> m < n \<longrightarrow> base @ dec m \<in> set existing)"
proof (induction base existing index rule: id_loop.induct)
  case (1 base existing index)
  show ?case
  proof (cases "base @ dec index \<in> set existing")
    case True
    from "1.IH" [OF True] obtain n where n: "index + 1 \<le> n"
      "id_loop base existing (index + 1) = base @ dec n" "base @ dec n \<notin> set existing"
      "\<forall>m. index + 1 \<le> m \<and> m < n \<longrightarrow> base @ dec m \<in> set existing"
      by blast
    have "\<forall>m. index \<le> m \<and> m < n \<longrightarrow> base @ dec m \<in> set existing"
    proof (intro allI impI)
      fix m assume "index \<le> m \<and> m < n"
      then consider "m = index" | "index + 1 \<le> m \<and> m < n" by linarith
      then show "base @ dec m \<in> set existing"
        using True n(4) by cases auto
    qed
    moreover have "id_loop base existing index = base @ dec n"
      using True n(2) by (subst id_loop.simps) simp
    ultimately show ?thesis using n(1,3) by (intro exI [of _ n]) simp
  next
    case False
    then have "id_loop base existing index = base @ dec index"
      by (subst id_loop.simps) simp
    with False show ?thesis by (intro exI [of _ index]) auto
  qed
qed

lemma id_loop_first_free:
  assumes "index \<le> n" and "base @ dec n \<notin> set existing"
    and "\<And>m. index \<le> m \<Longrightarrow> m < n \<Longrightarrow> base @ dec m \<in> set existing"
  shows "id_loop base existing index = base @ dec n"
proof -
  from id_loop_char [of index base existing] obtain k where k: "index \<le> k"
    "id_loop base existing index = base @ dec k" "base @ dec k \<notin> set existing"
    "\<forall>m. index \<le> m \<and> m < k \<longrightarrow> base @ dec m \<in> set existing"
    by blast
  have "k = n"
  proof (rule ccontr)
    assume "k \<noteq> n"
    then consider "k < n" | "n < k" by linarith
    then show False
    proof cases
      case 1 then show ?thesis using assms(3) [of k] k(1,3) by simp
    next
      case 2 then show ?thesis using k(4) assms(1,2) by blast
    qed
  qed
  with k(2) show ?thesis by simp
qed

lemma id_str_update: "id_str (ob\<lparr>oid := Some x\<rparr>) = x"
  by (simp add: id_str_def)

lemma get_objects_add:
  "get_objects (add_with_base base ob s) =
     get_objects s @ [ob\<lparr>oid := Some (generate_id base (Some s))\<rparr>]"
  by (simp add: add_with_base_def get_objects_def)

lemma add_all_ids:
  "map id_str (get_objects (add_all base obs empty_spec)) =
     map (\<lambda>k. base @ dec k) [1..<Suc (length obs)]"
proof (induction obs rule: rev_induct)
  case Nil
  show ?case by (simp add: add_all_def empty_spec_def get_objects_def)
next
  case (snoc ob obs)
  let ?s = "add_all base obs empty_spec"
  have ids: "existing_ids (Some ?s) = map (\<lambda>k. base @ dec k) [1..<Suc (length obs)]"
  proof -
    have "existing_ids (Some ?s) = filter (\<lambda>s. s \<noteq> []) (map (\<lambda>k. base @ dec k) [1..<Suc (length obs)])"
      using snoc.IH by (simp add: existing_ids_def spec_objects_def)
    also have "\<dots> = map (\<lambda>k. base @ dec k) [1..<Suc (length obs)]"
      by (rule filter_True) (auto simp: dec_nonempty)
    finally show ?thesis .
  qed
  have "generate_id base (Some ?s) = base @ dec (Suc (length obs))"
    unfolding generate_id_def
  proof (rule id_loop_first_free)
    show "1 \<le> Suc (length obs)" by simp
    show "base @ dec (Suc (length obs)) \<notin> set (existing_ids (Some ?s))"
      by (auto simp: ids dest: dec_inj)
    show "base @ dec m \<in> set (existing_ids (Some ?s))" if "1 \<le> m" "m < Suc (length obs)" for m
    proof -
      from that have "m \<in> set [1..<Suc (length obs)]" by auto
      then show ?thesis unfolding ids set_map by (rule imageI)
    qed
  qed
  then have gen: "generate_id base (Some ?s) = base @ dec (Suc (length obs))" .
  have A: "map id_str (get_objects (add_with_base base ob ?s)) =
      map id_str (get_objects ?s) @ [generate_id base (Some ?s)]"
    by (simp add: get_objects_add id_str_update)
  have B: "[1..<Suc (length (obs @ [ob]))] = [1..<Suc (length obs)] @ [Suc (length obs)]"
    by simp
  have C: "add_all base (obs @ [ob]) empty_spec = add_with_base base ob ?s"
    by (simp add: add_all_def)
  show ?case unfolding C A B snoc.IH gen by simp
qed

text \<open>
  C5.  \<open>generate_id base scene\<close> is \<open>base\<close> followed by the decimal digits of the smallest
  positive \<open>n\<close> whose id is unused in the scene.  Hence adding any \<open>N\<close> objects one after
  the other with the same base to the empty scene gives exactly the ids \<open>base1 .. baseN\<close>
  in order, and in every scene where \<open>base1\<close> is used and \<open>base2\<close> is free (for instance
  after \<open>base2\<close> was removed) the next id is \<open>base2\<close> again.
\<close>

theorem generate_id_smallest_free:
  "(\<exists>n\<ge>1. generate_id base sp = base @ dec n \<and> base @ dec n \<notin> set (existing_ids sp) \<and>
      (\<forall>m. 1 \<le> m \<and> m < n \<longrightarrow> base @ dec m \<in> set (existing_ids sp))) \<and>
   map id_str (get_objects (add_all base obs empty_spec)) =
      map (\<lambda>k. base @ dec k) [1..<Suc (length obs)] \<and>
   (base @ dec 1 \<in> set (existing_ids sp) \<and> base @ dec 2 \<notin> set (existing_ids sp) \<longrightarrow>
      generate_id base sp = base @ dec 2)"
proof (intro conjI impI)
  show "\<exists>n\<ge>1. generate_id base sp = base @ dec n \<and> base @ dec n \<notin> set (existing_ids sp) \<and>
      (\<forall>m. 1 \<le> m \<and> m < n \<longrightarrow> base @ dec m \<in> set (existing_ids sp))"
    unfolding generate_id_def by (rule id_loop_char)
next
  show "map id_str (get_objects (add_all base obs empty_spec)) =
      map (\<lambda>k. base @ dec k) [1..<Suc (length obs)]"
    by (rule add_all_ids)
next
  assume a: "base @ dec 1 \<in> set (existing_ids sp) \<and> base @ dec 2 \<notin> set (existing_ids sp)"
  show "generate_id base sp = base @ dec 2"
    unfolding generate_id_def
  proof (rule id_loop_first_free)
    show "(1::nat) \<le> 2" by simp
    show "base @ dec 2 \<notin> set (existing_ids sp)" using a by simp
    show "base @ dec m \<in> set (existing_ids sp)" if "1 \<le> m" "m < 2" for m
    proof -
      from that have "m = 1" by simp
      with a show ?thesis by simp
    qed
  qed
qed

definition mk_obj :: "string \<Rightarrow> string \<Rightarrow> obj" where
  "mk_obj i t = \<lparr>oid = Some i, otype = Some t, params = None, xform = None\<rparr>"

lemma dec_1: "dec 1 = ''1''"
  by (simp add: dec_small digit_char_def)

lemma dec_2: "dec 2 = ''2''"
  by (simp add: dec_small digit_char_def)

theorem generate_id_smallest_free_witness:
  "''box1'' \<in> set (existing_ids (Some \<lparr>objects = Some [mk_obj ''box1'' ''box'', mk_obj ''box3'' ''box'']\<rparr>)) \<and>
   ''box2'' \<notin> set (existing_ids (Some \<lparr>objects = Some [mk_obj ''box1'' ''box'', mk_obj ''box3'' ''box'']\<rparr>)) \<and>
   generate_id ''box'' (Some \<lparr>objects = Some [mk_obj ''box1'' ''box'', mk_obj ''box3'' ''box'']\<rparr>) = ''box2''"
proof -
  let ?sp = "Some \<lparr>objects = Some [mk_obj ''box1'' ''box'', mk_obj ''box3'' ''box'']\<rparr>"
  have ids: "existing_ids ?sp = [''box1'', ''box3'']"
    by (simp add: existing_ids_def spec_objects_def get_objects_def id_str_def mk_obj_def)
  have h: "''box'' @ dec 1 \<in> set (existing_ids ?sp) \<and> ''box'' @ dec 2 \<notin> set (existing_ids ?sp)"
    unfolding ids dec_1 dec_2 by simp
  from generate_id_smallest_free [of "''box''" ?sp "[]"] h
  have "generate_id ''box'' ?sp = ''box'' @ dec 2" by blast
  then show ?thesis unfolding dec_2 ids by simp
qed

section \<open>Seeded fallback synthesis\<close>

text \<open>
  \<open>_seed_from_text\<close>: FNV-1a over the bytes of the text, in 64-bit arithmetic; a zero
  result is replaced by 1.  (For an ASCII text the UTF-8 bytes are its characters.)
\<close>

definition seed_step :: "64 word \<Rightarrow> char \<Rightarrow> 64 word" where
  "seed_step val ch = (val XOR of_nat (of_char ch)) * 1099511628211"

definition seed_from_text :: "string \<Rightarrow> 64 word" where
  "seed_from_text text =
     (let val = foldl seed_step 1469598103934665603 text in if val = 0 then 1 else val)"

text \<open>
  \<open>_rand01\<close>: one round of xorshift64*, then the low 53 bits divided by \<open>2 ^ 53\<close>.
  The quotient is exact in floating point, so the result is that rational number.
\<close>

definition rand_bits :: "64 word \<Rightarrow> 64 word" where
  "rand_bits seed =
     (let x = seed;
          x = x XOR drop_bit 12 x;
          x = x XOR push_bit 25 x;
          x = x XOR drop_bit 27 x;
          x = x * 2685821657736338717
      in x AND (2 ^ 53 - 1))"

definition rand01 :: "64 word \<Rightarrow> rat" where
  "rand01 seed = of_int (uint (rand_bits seed)) / 2 ^ 53"

text \<open>\<open>int(x)\<close> for a float: truncation towards zero.\<close>

definition py_int :: "rat \<Rightarrow> int" where
  "py_int x = (if 0 \<le> x then \<lfloor>x\<rfloor> else - \<lfloor>- x\<rfloor>)"

definition unit_rot :: vval where
  "unit_rot = Vec [0, 0, 0]"

definition unit_scale :: vval where
  "unit_scale = Vec [1, 1, 1]"

text \<open>The body of the loop of \<open>_generic_synthesis\<close> for the index \<open>i\<close>.  The decimal
  literals are the doubles nearest to them.\<close>

definition synth_obj :: "64 word \<Rightarrow> spec option \<Rightarrow> nat \<Rightarrow> obj" where
  "synth_obj seed sp i =
     (let rnd = (\<lambda>k. rand01 (seed + of_nat i * k));
          r = rnd 997
      in if r < fl (2 / 10) then
           (let radius = fadd (fl (8 / 10)) (fmul (fl (22 / 10)) (rnd 123))
            in \<lparr>oid = Some (generate_id ''sph'' sp), otype = Some ''sphere'',
                params = Some [(''radius'', Num radius)],
                xform = Some \<lparr>position = Some (Vec
                    [fadd (- (25 / 10)) (fmul 5 (rnd 31)),
                     fadd (- (25 / 10)) (fmul 5 (rnd 37)),
                     fadd (fl (6 / 10)) (fmul 2 (rnd 41))]),
                  rotation = Some unit_rot, scale = Some unit_scale\<rparr>\<rparr>)
         else if r < fl (55 / 100) then
           (let w = fadd (fl (12 / 10)) (fmul 4 (rnd 53));
                d = fadd 1 (fmul 4 (rnd 59));
                h = fadd (fl (8 / 10)) (fmul 3 (rnd 61))
            in \<lparr>oid = Some (generate_id ''box'' sp), otype = Some ''box'',
                params = Some [(''width'', Num w), (''depth'', Num d), (''height'', Num h)],
                xform = Some \<lparr>position = Some (Vec
                    [fadd (- (25 / 10)) (fmul 5 (rnd 67)),
                     fadd (- (25 / 10)) (fmul 5 (rnd 71)),
                     fdiv h 2]),
                  rotation = Some unit_rot, scale = Some unit_scale\<rparr>\<rparr>)
         else if r < fl (8 / 10) then
           (let radius = fadd (fl (6 / 10)) (fmul (fl (22 / 10)) (rnd 73));
                depth = fadd (15 / 10) (fmul (35 / 10) (rnd 79))
            in \<lparr>oid = Some (generate_id ''cyl'' sp), otype = Some ''cylinder'',
                params = Some [(''radius'', Num radius), (''depth'', Num depth)],
                xform = Some \<lparr>position = Some (Vec
                    [fadd (- (25 / 10)) (fmul 5 (rnd 83)),
                     fadd (- (25 / 10)) (fmul 5 (rnd 89)),
                     fdiv depth 2]),
                  rotation = Some unit_rot, scale = Some unit_scale\<rparr>\<rparr>)
         else
           (let radius = fadd (fl (9 / 10)) (fmul (25 / 10) (rnd 97));
                tube = fadd (fl (2 / 10)) (fmul (fl (6 / 10)) (rnd 101))
            in \<lparr>oid = Some (generate_id ''torus'' sp), otype = Some ''torus'',
                params = Some [(''radius'', Num radius), (''tube'', Num tube)],
                xform = Some \<lparr>position = Some (Vec
                    [fadd (- (25 / 10)) (fmul 5 (rnd 103)),
                     fadd (- (25 / 10)) (fmul 5 (rnd 107)),
                     fadd (fl (8 / 10)) (fmul 2 (rnd 109))]),
                  rotation = Some (Vec [fmul (fdiv math_pi 2) (rnd 113), 0, 0]),
                  scale = Some unit_scale\<rparr>\<rparr>))"

definition synth_count :: "64 word \<Rightarrow> nat" where
  "synth_count seed = 3 + nat (py_int (fmul (rand01 seed) 3))"

definition generic_synthesis :: "string \<Rightarrow> spec option \<Rightarrow> obj list" where
  "generic_synthesis text sp =
     (let seed = seed_from_text text in map (synth_obj seed sp) [0..<synth_count seed])"

section \<open>Named values and default parameters\<close>

definition DIMENSION_KEYWORDS :: "string list" where
  "DIMENSION_KEYWORDS =
     [''width'', ''wide'', ''depth'', ''deep'', ''length'', ''long'', ''height'', ''tall'',
      ''radius'', ''rad'', ''diameter'', ''tube'', ''minor'', ''major'', ''size'', ''thick'',
      ''thin'', ''thickness'', ''scale'']"

definition alts :: "rx list \<Rightarrow> rx" where
  "alts rs = foldr Alt (butlast rs) (last rs)"

text \<open>\<open>\bKEYWORD\b\s*(?:is|=|:|of|with|at|to)?\s*(-?\d*\.?\d+)\<close>\<close>

definition following_rx :: "string \<Rightarrow> rx" where
  "following_rx keyword = seqs
     [WordB, lit keyword, WordB, Star (Cls whitespace),
      Opt (alts [lit ''is'', lit ''='', lit '':'', lit ''of'', lit ''with'', lit ''at'', lit ''to'']),
      Star (Cls whitespace),
      Grp 1 (seqs [Opt (Cls ''-''), Star (Cls digits), Opt (Cls ''.''), plus_rx (Cls digits)])]"

text \<open>\<open>([-+]?\d*\.?\d+)\s*(?:units?\s*)?KEYWORD\b\<close>\<close>

definition preceding_rx :: "string \<Rightarrow> rx" where
  "preceding_rx keyword = seqs
     [Grp 1 number_rx, Star (Cls whitespace),
      Opt (seqs [lit ''unit'', Opt (Cls ''s''), Star (Cls whitespace)]),
      lit keyword, WordB]"

text \<open>\<open>([a-z]+)\s*$\<close>\<close>

definition prev_word_rx :: rx where
  "prev_word_rx = seqs
     [Grp 1 (plus_rx (Cls ''abcdefghijklmnopqrstuvwxyz'')), Star (Cls whitespace), Eos]"

text \<open>The body of the loop of \<open>_extract_named_value\<close> for one keyword: the value in
  front of the keyword wins over the value behind it.\<close>

definition named_value_for :: "string \<Rightarrow> string \<Rightarrow> rat option" where
  "named_value_for text keyword =
     (let following_value =
            (case re_search (following_rx keyword) text of
               None \<Rightarrow> None
             | Some m \<Rightarrow> Some (float_of_decimal (group text m 1)));
          preceding_value =
            (case re_search (preceding_rx keyword) text of
               None \<Rightarrow> None
             | Some m \<Rightarrow>
                 (let prefix = take (fst m) text
                  in case re_search prev_word_rx prefix of
                       None \<Rightarrow> Some (float_of_decimal (group text m 1))
                     | Some pm \<Rightarrow>
                         if group prefix pm 1 \<in> set DIMENSION_KEYWORDS then None
                         else Some (float_of_decimal (group text m 1))))
      in if preceding_value \<noteq> None then preceding_value else following_value)"

fun extract_named_value :: "string \<Rightarrow> string list \<Rightarrow> rat option" where
  "extract_named_value text [] = None"
| "extract_named_value text (keyword # keywords) =
     (case named_value_for text keyword of
        Some v \<Rightarrow> Some v
      | None \<Rightarrow> extract_named_value text keywords)"

text \<open>\<open>_color_from_text\<close>: the colour of the longest name that is a substring of the
  lowered text.\<close>

definition color_from_text :: "string \<Rightarrow> string option" where
  "color_from_text text =
     map_option snd (find (\<lambda>kv. contains (fst kv) (py_lower text)) colors_by_length)"

definition detect_object_type :: "string \<Rightarrow> string" where
  "detect_object_type text =
     (case find (\<lambda>candidate. match_type candidate (py_lower text))
             [''cylinder'', ''sphere'', ''cone'', ''torus'', ''plane'', ''box''] of
        None \<Rightarrow> ''box''
      | Some candidate \<Rightarrow> candidate)"

text \<open>
  \<open>param_value\<close> of \<open>_default_params_for_type\<close>: a named value is taken (and removed from
  the pool of numbers if it is there), else the next number of the pool, else the
  default.  The pool is threaded through the calls.
\<close>

definition param_value :: "string \<Rightarrow> string list \<Rightarrow> rat \<Rightarrow> rat list \<Rightarrow> rat \<times> rat list" where
  "param_value text keywords dflt available =
     (case extract_named_value text keywords of
        Some named \<Rightarrow> (named, remove1 named available)
      | None \<Rightarrow> (case available of [] \<Rightarrow> (dflt, []) | x # rest \<Rightarrow> (x, rest)))"

text \<open>\<open>value or default\<close> for an optional float: \<open>None\<close> and \<open>0.0\<close> give the default.\<close>

definition or_default :: "rat option \<Rightarrow> rat \<Rightarrow> rat" where
  "or_default v d = (case v of None \<Rightarrow> d | Some x \<Rightarrow> if x = 0 then d else x)"

text \<open>
  \<open>int(x)\<close> raises \<open>OverflowError\<close> on an infinite float.  A decimal text that is too
  large for a double reads as infinity in Python; in the model it reads as a number of
  magnitude at least \<open>2 ^ 1024\<close>.
\<close>

definition py_int_checked :: "rat \<Rightarrow> py_error + int" where
  "py_int_checked x = (if 2 ^ 1024 \<le> \<bar>x\<bar> then Inl OverflowError else Inr (py_int x))"

definition default_params_for_type ::
  "string \<Rightarrow> string \<Rightarrow> rat list \<Rightarrow> py_error + (string \<times> pval) list" where
  "default_params_for_type obj_type text numbers =
     (if obj_type = ''box'' then
        (let (width, a1) = param_value text [''width'', ''wide''] 10 numbers;
             (depth, a2) = param_value text [''depth'', ''deep'', ''length'', ''long''] width a1;
             (height, a3) = param_value text [''height'', ''tall''] width a2
         in Inr [(''width'', Num width), (''depth'', Num depth), (''height'', Num height)])
      else if obj_type = ''cylinder'' then
        (let (radius, a1) = param_value text [''radius'', ''rad'', ''diameter''] 5 numbers;
             (depth, a2) = param_value text [''depth'', ''height''] 10 a1
         in Inr [(''radius'', Num radius), (''depth'', Num depth)])
      else if obj_type = ''sphere'' then
        (let (radius, a1) = param_value text [''radius'', ''rad'', ''size''] 5 numbers
         in Inr [(''radius'', Num radius)])
      else if obj_type = ''cone'' then
        (let (radius, a1) = param_value text [''radius'', ''base''] 5 numbers;
             (height, a2) = param_value text [''height''] 10 a1
         in Inr [(''radius'', Num radius), (''height'', Num height)])
      else if obj_type = ''torus'' then
        (let (radius, a1) = param_value text [''radius'', ''major''] 5 numbers;
             (tube, a2) = param_value text [''tube'', ''minor''] (15 / 10) a1
         in Inr [(''radius'', Num radius), (''tube'', Num tube)])
      else if obj_type = ''plane'' then
        (let (size, a1) = param_value text [''size'', ''width'', ''length''] 10 numbers
         in Inr [(''size'', Num size)])
      else if obj_type = ''assembly'' then
        (if contains ''bicycle'' (py_lower text) \<or> contains ''bike'' (py_lower text) then
           Inr [(''template'', Str ''bicycle_basic''),
                (''wheelRadius'',
                   Num (or_default (extract_named_value text [''wheel radius'', ''radius'']) 3)),
                (''tireThickness'',
                   Num (or_default (extract_named_value text [''tire'', ''thickness''])
                          (fl (4 / 10)))),
                (''wheelbase'',
                   Num (or_default (extract_named_value text [''wheelbase'', ''length'']) 8)),
                (''frameHeight'', Num (or_default (extract_named_value text [''height'']) 4)),
                (''frameColor'',
                   Str (case color_from_text text of None \<Rightarrow> ''#b9c6ff'' | Some c \<Rightarrow> c))]
         else
           bind_err (py_int_checked
                       (or_default (extract_named_value text [''fingers'', ''finger'']) 5))
             (\<lambda>finger_count.
               Inr [(''template'', Str ''robot_hand''),
                    (''fingerCount'', Num (of_int finger_count)),
                    (''palmWidth'',
                       Num (or_default (extract_named_value text [''palm width'', ''width'']) 8)),
                    (''palmDepth'',
                       Num (or_default (extract_named_value text [''palm depth'', ''depth'']) 2)),
                    (''palmHeight'',
                       Num (or_default (extract_named_value text [''palm height'', ''height''])
                              10)),
                    (''fingerLength'',
                       Num (or_default (extract_named_value text [''finger length'']) 8))]))
      else Inr [])"

definition ADD_KEYWORDS :: "string list" where
  "ADD_KEYWORDS = [''add'', ''include'', ''spawn'', ''create'', ''new'', ''another'', ''place'',
                   ''insert'', ''generate'']"

definition CLONE_KEYWORDS :: "string list" where
  "CLONE_KEYWORDS = [''duplicate'', ''copy'', ''clone'']"

definition REPLACE_KEYWORDS :: "string list" where
  "REPLACE_KEYWORDS = [''replace'', ''swap'', ''switch'']"

definition ADD_PHRASES :: "string list" where
  "ADD_PHRASES = [''make a'', ''make an'', ''build a'', ''build another'', ''create a'',
                  ''create an'']"

definition is_add_intent :: "string \<Rightarrow> bool" where
  "is_add_intent text =
     (contains_any (py_lower text) ADD_KEYWORDS \<or> contains_any (py_lower text) ADD_PHRASES)"

section \<open>Colour, dimension, move and scale mutators\<close>

text \<open>A loop over the targets whose body also says whether it changed something;
  the flags are or-ed.\<close>

fun for_each_flag ::
  "(obj \<Rightarrow> py_error + obj \<times> bool) \<Rightarrow> nat list \<Rightarrow> obj list \<Rightarrow> py_error + obj list \<times> bool" where
  "for_each_flag f [] h = Inr (h, False)"
| "for_each_flag f (a # as) h =
     bind_err (f (h ! a)) (\<lambda>(ob, c).
     bind_err (for_each_flag f as (h[a := ob])) (\<lambda>(h', c'). Inr (h', c \<or> c')))"

text \<open>\<open>obj.setdefault("params", {})\<close>\<close>

definition get_params :: "obj \<Rightarrow> (string \<times> pval) list" where
  "get_params ob = (case params ob of None \<Rightarrow> [] | Some ps \<Rightarrow> ps)"

text \<open>The body of the loop of \<open>_apply_color_change\<close>.\<close>

definition set_color :: "string \<Rightarrow> obj \<Rightarrow> obj \<times> bool" where
  "set_color color ob =
     (let ps = get_params ob
      in if map_of ps ''color'' \<noteq> Some (Str color)
         then (ob\<lparr>params := Some (AList.update ''color'' (Str color) ps)\<rparr>, True)
         else (ob\<lparr>params := Some ps\<rparr>, False))"

definition apply_color_change ::
  "obj list \<Rightarrow> nat list \<Rightarrow> string \<Rightarrow> py_error + obj list \<times> bool" where
  "apply_color_change h targets text =
     (let mentions = color_mentions text
      in if mentions = [] then Inr (h, False)
         else for_each_flag (\<lambda>ob. Inr (set_color (snd (last mentions)) ob)) targets h)"

text \<open>
  \<open>float(v)\<close> for a parameter value.  A number converts to itself.  A string converts
  when it is a decimal literal (blanks around it, a sign, digits with an optional point,
  an optional exponent); every other string raises \<open>ValueError\<close>.  The special
  spellings of Python (\<open>inf\<close>, \<open>nan\<close>, digit groups with underscores) are not
  represented.
\<close>

definition float_text_rx :: rx where
  "float_text_rx = seqs
     [Star (Cls whitespace), Grp 1 (Opt (Cls ''-+'')),
      Alt (Seq (Grp 2 (plus_rx (Cls digits))) (Opt (Seq (Cls ''.'') (Grp 3 (Star (Cls digits))))))
          (Seq (Cls ''.'') (Grp 3 (plus_rx (Cls digits)))),
      Opt (seqs [Cls ''eE'', Grp 4 (Opt (Cls ''-+'')), Grp 5 (plus_rx (Cls digits))]),
      Star (Cls whitespace), Eos]"

definition float_of_string :: "string \<Rightarrow> py_error + rat" where
  "float_of_string s =
     (case match_at float_text_rx s 0 of
        None \<Rightarrow> Inl ValueError
      | Some m \<Rightarrow>
          (let fp = group s m 3;
               mant = of_int (digits_val (group s m 2)) + of_int (digits_val fp) / 10 ^ length fp;
               ex = digits_val (group s m 5);
               v = (if group s m 4 = ''-'' then mant / 10 ^ nat ex else mant * 10 ^ nat ex)
           in Inr (fl (if group s m 1 = ''-'' then - v else v))))"

definition py_float :: "pval \<Rightarrow> py_error + rat" where
  "py_float v = (case v of Num x \<Rightarrow> Inr x | Str s \<Rightarrow> float_of_string s)"

text \<open>\<open>_adjust_param\<close> on the parameter dictionary.\<close>

definition adjust_param ::
  "(string \<times> pval) list \<Rightarrow> string \<Rightarrow> rat list \<Rightarrow> bool \<Rightarrow> bool \<Rightarrow>
     py_error + (string \<times> pval) list \<times> bool" where
  "adjust_param ps key numbers up down =
     (case map_of ps key of
        None \<Rightarrow> Inr (ps, False)
      | Some v \<Rightarrow>
          bind_err (py_float v) (\<lambda>current.
            case numbers of
              n # ns \<Rightarrow> Inr (AList.update key (Num (max (fl (1 / 1000)) n)) ps, True)
            | [] \<Rightarrow>
                if up then
                  Inr (AList.update key (Num (max (fl (1 / 1000)) (fmul current (125 / 100)))) ps,
                       True)
                else if down then
                  Inr (AList.update key (Num (max (fl (1 / 1000)) (fmul current (fl (8 / 10))))) ps,
                       True)
                else Inr (ps, False)))"

definition SCALE_UP_WORDS :: "string list" where
  "SCALE_UP_WORDS = [''bigger'', ''larger'', ''increase'', ''wider'', ''taller'', ''longer'',
                     ''scale up'', ''expand'', ''grow'']"

definition SCALE_DOWN_WORDS :: "string list" where
  "SCALE_DOWN_WORDS = [''smaller'', ''shorter'', ''narrower'', ''reduce'', ''decrease'',
                       ''shrink'', ''scale down'', ''thin'']"

definition WIDTH_POSITIVE :: "string list" where
  "WIDTH_POSITIVE = [''wider'', ''thicker'', ''broader'']"

definition WIDTH_NEGATIVE :: "string list" where
  "WIDTH_NEGATIVE = [''narrower'', ''thinner'', ''slimmer'']"

definition HEIGHT_POSITIVE :: "string list" where
  "HEIGHT_POSITIVE = [''taller'', ''higher'', ''raise'', ''elevate'']"

definition HEIGHT_NEGATIVE :: "string list" where
  "HEIGHT_NEGATIVE = [''shorter'', ''lower'', ''shorten'', ''flatten'']"

definition DEPTH_POSITIVE :: "string list" where
  "DEPTH_POSITIVE = [''longer'', ''deeper'', ''extend'', ''stretch'']"

definition DEPTH_NEGATIVE :: "string list" where
  "DEPTH_NEGATIVE = [''shorter'', ''shallower'', ''trim'']"

text \<open>
  The calls of \<open>_adjust_param\<close> that \<open>_apply_dimension_change\<close> makes for an object of a
  given type: the key, the numbers handed over, and the two direction flags.
\<close>

definition dimension_plan ::
  "string \<Rightarrow> rat list \<Rightarrow> string option \<Rightarrow> (string \<times> rat list \<times> bool \<times> bool) list" where
  "dimension_plan lowered numbers ty =
     (let scale_up = contains_any lowered SCALE_UP_WORDS;
          scale_down = contains_any lowered SCALE_DOWN_WORDS;
          width_up = contains_any lowered WIDTH_POSITIVE;
          width_down = contains_any lowered WIDTH_NEGATIVE;
          height_up = contains_any lowered HEIGHT_POSITIVE;
          height_down = contains_any lowered HEIGHT_NEGATIVE;
          depth_up = contains_any lowered DEPTH_POSITIVE;
          depth_down = contains_any lowered DEPTH_NEGATIVE;
          nums = (\<lambda>b. if b then numbers else [])
      in if ty = Some ''box'' then
           [(''width'', nums (contains ''width'' lowered \<or> width_up \<or> width_down),
               width_up \<or> scale_up, width_down \<or> scale_down),
            (''depth'', nums (contains ''depth'' lowered \<or> depth_up \<or> depth_down),
               depth_up \<or> scale_up, depth_down \<or> scale_down),
            (''height'', nums (contains ''height'' lowered \<or> height_up \<or> height_down),
               height_up \<or> scale_up, height_down \<or> scale_down)]
         else if ty = Some ''cylinder'' then
           [(''radius'', nums (contains ''radius'' lowered \<or> width_up \<or> width_down),
               width_up \<or> scale_up, width_down \<or> scale_down),
            (''depth'', nums (contains ''depth'' lowered \<or> height_up \<or> height_down),
               height_up \<or> scale_up, height_down \<or> scale_down)]
         else if ty = Some ''sphere'' then [(''radius'', numbers, scale_up, scale_down)]
         else if ty = Some ''cone'' then
           [(''radius'', nums (contains ''radius'' lowered \<or> width_up \<or> width_down),
               width_up \<or> scale_up, width_down \<or> scale_down),
            (''height'', nums (contains ''height'' lowered \<or> height_up \<or> height_down),
               height_up \<or> scale_up, height_down \<or> scale_down)]
         else if ty = Some ''torus'' \<or> ty = Some ''torusknot'' then
           [(''radius'', nums (contains ''radius'' lowered \<or> scale_up \<or> scale_down),
               scale_up, scale_down),
            (''tube'', nums (contains ''tube'' lowered \<or> width_up \<or> width_down),
               width_up \<or> scale_up, width_down \<or> scale_down)]
         else if ty = Some ''plane'' then [(''size'', numbers, scale_up, scale_down)]
         else [])"

fun adjust_all ::
  "(string \<times> rat list \<times> bool \<times> bool) list \<Rightarrow> (string \<times> pval) list \<Rightarrow>
     py_error + (string \<times> pval) list \<times> bool" where
  "adjust_all [] ps = Inr (ps, False)"
| "adjust_all ((key, nums, up, down) # plan) ps =
     bind_err (adjust_param ps key nums up down) (\<lambda>(ps1, c).
     bind_err (adjust_all plan ps1) (\<lambda>(ps2, c'). Inr (ps2, c \<or> c')))"

definition adjust_obj :: "string \<Rightarrow> rat list \<Rightarrow> obj \<Rightarrow> py_error + obj \<times> bool" where
  "adjust_obj lowered numbers ob =
     bind_err (adjust_all (dimension_plan lowered numbers (otype ob)) (get_params ob))
       (\<lambda>(ps, c). Inr (ob\<lparr>params := Some ps\<rparr>, c))"

text \<open>\<open>[max(0.01, float(v) * factor) for v in transform["scale"]]\<close>\<close>

definition scale_times :: "vval \<Rightarrow> rat \<Rightarrow> py_error + vval" where
  "scale_times v factor =
     bind_err (case v of Vec xs \<Rightarrow> Inr xs | Txt s \<Rightarrow> map_err float_of_char s)
       (\<lambda>xs. Inr (Vec (map (\<lambda>x. max (fl (1 / 100)) (fmul x factor)) xs)))"

definition scale_obj_by :: "rat \<Rightarrow> obj \<Rightarrow> py_error + obj" where
  "scale_obj_by factor ob =
     bind_err (ensure_transform ob) (\<lambda>(p, r, s).
     bind_err (scale_times s factor) (\<lambda>s'. Inr (with_xf ob (p, r, s'))))"

text \<open>
  The loop of \<open>_apply_dimension_change\<close>.  \<open>changed\<close> is carried from target to target;
  while it is still false and the text asks for a scale change, every target is
  rescaled.
\<close>

fun dimension_loop ::
  "string \<Rightarrow> rat list \<Rightarrow> nat list \<Rightarrow> nat list \<Rightarrow> obj list \<Rightarrow> bool \<Rightarrow>
     py_error + obj list \<times> bool" where
  "dimension_loop lowered numbers targets [] h changed = Inr (h, changed)"
| "dimension_loop lowered numbers targets (a # as) h changed =
     bind_err (adjust_obj lowered numbers (h ! a)) (\<lambda>(ob, c).
       let h1 = h[a := ob];
           changed1 = (changed \<or> c);
           scale_up = contains_any lowered SCALE_UP_WORDS;
           scale_down = contains_any lowered SCALE_DOWN_WORDS
       in if \<not> changed1 \<and> (scale_up \<or> scale_down) \<and> contains ''scale'' lowered
          then
            (let factor = (case numbers of n # ns \<Rightarrow> n
                           | [] \<Rightarrow> if scale_up then 125 / 100 else fl (8 / 10))
             in bind_err (for_each (scale_obj_by factor) targets h1)
                  (\<lambda>h2. dimension_loop lowered numbers targets as h2 True))
          else dimension_loop lowered numbers targets as h1 changed1)"

definition apply_dimension_change ::
  "obj list \<Rightarrow> nat list \<Rightarrow> string \<Rightarrow> rat list \<Rightarrow> py_error + obj list \<times> bool" where
  "apply_dimension_change h targets text numbers =
     dimension_loop (py_lower text) numbers targets targets h False"

definition DIRECTION_KEYWORDS :: "(string \<times> rat \<times> rat \<times> rat) list" where
  "DIRECTION_KEYWORDS =
     [(''up'', 0, 0, 1), (''upwards'', 0, 0, 1), (''raise'', 0, 0, 1), (''higher'', 0, 0, 1),
      (''above'', 0, 0, 1), (''down'', 0, 0, -1), (''lower'', 0, 0, -1), (''drop'', 0, 0, -1),
      (''below'', 0, 0, -1), (''beneath'', 0, 0, -1), (''under'', 0, 0, -1),
      (''left'', -1, 0, 0), (''right'', 1, 0, 0), (''forward'', 0, 1, 0), (''ahead'', 0, 1, 0),
      (''front'', 0, 1, 0), (''back'', 0, -1, 0), (''backward'', 0, -1, 0),
      (''toward'', 0, 1, 0), (''towards'', 0, 1, 0)]"

definition move_words :: "string list" where
  "move_words = [''move'', ''shift'', ''slide'', ''raise'', ''lower'', ''position'', ''place'']"

text \<open>\<open>[p[0] + v[0] * delta, p[1] + v[1] * delta, p[2] + v[2] * delta]\<close>; adding a float
  to a character of a string raises \<open>TypeError\<close>.\<close>

definition add_vector :: "vval \<Rightarrow> rat \<times> rat \<times> rat \<Rightarrow> rat \<Rightarrow> py_error + vval" where
  "add_vector p v delta =
     (case p of
        Txt s \<Rightarrow> Inl TypeError
      | Vec xs \<Rightarrow> (case v of (vx, vy, vz) \<Rightarrow>
          Inr (Vec [fadd (xs ! 0) (fmul vx delta), fadd (xs ! 1) (fmul vy delta),
                    fadd (xs ! 2) (fmul vz delta)])))"

fun move_steps ::
  "string \<Rightarrow> rat \<Rightarrow> (string \<times> rat \<times> rat \<times> rat) list \<Rightarrow> vval \<Rightarrow> py_error + vval \<times> bool" where
  "move_steps lowered delta [] p = Inr (p, False)"
| "move_steps lowered delta ((keyword, v) # rest) p =
     (if contains keyword lowered
      then bind_err (add_vector p v delta) (\<lambda>p1.
           bind_err (move_steps lowered delta rest p1) (\<lambda>(p2, c). Inr (p2, True)))
      else move_steps lowered delta rest p)"

definition move_obj :: "string \<Rightarrow> rat \<Rightarrow> obj \<Rightarrow> py_error + obj \<times> bool" where
  "move_obj lowered delta ob =
     bind_err (ensure_transform ob) (\<lambda>(p, r, s).
     bind_err (move_steps lowered delta DIRECTION_KEYWORDS p) (\<lambda>(p', c).
       Inr (with_xf ob (p', r, s), c)))"

definition place_obj :: "rat list \<Rightarrow> obj \<Rightarrow> py_error + obj" where
  "place_obj absolute ob =
     bind_err (ensure_transform ob) (\<lambda>(p, r, s). Inr (with_xf ob (Vec absolute, r, s)))"

definition apply_directional_move ::
  "obj list \<Rightarrow> nat list \<Rightarrow> string \<Rightarrow> rat list \<Rightarrow> py_error + obj list \<times> bool" where
  "apply_directional_move h targets text numbers =
     (let lowered = py_lower text in
      if \<not> contains_any lowered move_words then Inr (h, False)
      else case extract_position_triplet lowered of
             Some absolute \<Rightarrow>
               bind_err (for_each (place_obj absolute) targets h) (\<lambda>h'. Inr (h', targets \<noteq> []))
           | None \<Rightarrow> for_each_flag (move_obj lowered (first_or numbers 1)) targets h)"

text \<open>The patterns of \<open>_apply_scale_change\<close>; \<open>gap\<close> is \<open>(?:\s+\w+){0,3}\<close> and
  \<open>number_list\<close> is \<open>([-+0-9.,\s]+)\<close>.\<close>

definition gap :: rx where
  "gap = Rep 3 (Seq (plus_rx (Cls whitespace)) (plus_rx (Cls word_chars)))"

definition number_list :: rx where
  "number_list = Grp 1 (plus_rx (Cls (''-+0123456789.,'' @ whitespace)))"

definition explicit_patterns :: "rx list" where
  "explicit_patterns =
     [seqs [lit ''scale'', gap, plus_rx (Cls whitespace), lit ''to'', plus_rx (Cls whitespace),
            number_list],
      seqs [lit ''set'', plus_rx (Cls whitespace), lit ''scale'', plus_rx (Cls whitespace),
            lit ''to'', plus_rx (Cls whitespace), number_list],
      seqs [lit ''scale'', Star (Cls whitespace), lit ''='', Star (Cls whitespace), number_list],
      seqs [lit ''scale'', gap, plus_rx (Cls whitespace), lit ''at'', plus_rx (Cls whitespace),
            number_list]]"

definition factor_patterns :: "rx list" where
  "factor_patterns =
     [seqs [lit ''scale'', gap, plus_rx (Cls whitespace), lit ''by'', plus_rx (Cls whitespace),
            number_list]]"

text \<open>The loop over a tuple of patterns: the numbers of the first pattern that matches
  and holds a number.\<close>

fun pattern_numbers :: "rx list \<Rightarrow> string \<Rightarrow> rat list" where
  "pattern_numbers [] lowered = []"
| "pattern_numbers (pat # pats) lowered =
     (case re_search pat lowered of
        None \<Rightarrow> pattern_numbers pats lowered
      | Some m \<Rightarrow>
          (let ns = extract_numbers (group lowered m 1)
           in if ns \<noteq> [] then ns else pattern_numbers pats lowered))"

definition set_scale_obj :: "rat list \<Rightarrow> obj \<Rightarrow> py_error + obj" where
  "set_scale_obj vals ob =
     bind_err (ensure_transform ob) (\<lambda>(p, r, s).
       Inr (with_xf ob (p, r, Vec (map (\<lambda>v. max (fl (1 / 100)) v) vals))))"

definition apply_scale_change ::
  "obj list \<Rightarrow> nat list \<Rightarrow> string \<Rightarrow> rat list \<Rightarrow> py_error + obj list \<times> bool" where
  "apply_scale_change h targets text numbers =
     (let lowered = py_lower text in
      if \<not> contains ''scale'' lowered then Inr (h, False)
      else
        let explicit0 = pattern_numbers explicit_patterns lowered;
            factor0 = pattern_numbers factor_patterns lowered;
            explicit_mentioned = (explicit0 \<noteq> [] \<or>
               contains_any lowered [''scale to'', ''set scale'', ''scale ='', ''scale at'']);
            factor_mentioned = (factor0 \<noteq> [] \<or> contains ''scale by'' lowered);
            explicit_numbers = (if explicit0 = [] \<and> explicit_mentioned then numbers else explicit0);
            factor_numbers = (if factor0 = [] \<and> factor_mentioned then numbers else factor0)
        in bind_err
             (if explicit_numbers \<noteq> [] then
                bind_err (for_each (set_scale_obj
                    (if 3 \<le> length explicit_numbers
                     then [explicit_numbers ! 0, explicit_numbers ! 1, explicit_numbers ! 2]
                     else replicate 3 (explicit_numbers ! 0))) targets h)
                  (\<lambda>h1. Inr (h1, targets \<noteq> []))
              else Inr (h, False))
             (\<lambda>(h1, c1).
                if factor_numbers \<noteq> [] then
                  bind_err (for_each (scale_obj_by (factor_numbers ! 0)) targets h1)
                    (\<lambda>h2. Inr (h2, c1 \<or> targets \<noteq> []))
                else Inr (h1, c1)))"

section \<open>Composite synthesizer\<close>

text \<open>
  The library functions \<open>math.cos\<close>, \<open>math.sin\<close> and \<open>urllib.parse.urlparse\<close> are
  parameters of the model (\<open>url_path\<close> is the path of the parsed URL, or the error
  that parsing raises).  A decimal literal of the source is \<open>dl m k\<close>, the double nearest
  to \<open>m / 10 ^ k\<close>.
\<close>

record pylib =
  lib_cos :: "rat \<Rightarrow> rat"
  lib_sin :: "rat \<Rightarrow> rat"
  url_path :: "string \<Rightarrow> py_error + string"

definition dl :: "int \<Rightarrow> nat \<Rightarrow> rat" where
  "dl m k = fl (of_int m / 10 ^ k)"

text \<open>\<open>rot or [0.0, 0.0, 0.0]\<close>: an absent, empty-list or empty-string argument gives
  the default.\<close>

definition rot_or_default :: "vval option \<Rightarrow> vval" where
  "rot_or_default rot =
     (case rot of
        None \<Rightarrow> Vec [0, 0, 0]
      | Some (Vec xs) \<Rightarrow> if xs = [] then Vec [0, 0, 0] else Vec xs
      | Some (Txt t) \<Rightarrow> if t = [] then Vec [0, 0, 0] else Txt t)"

text \<open>\<open>**({"color": color} if color else {})\<close>\<close>

definition color_entry :: "string option \<Rightarrow> (string \<times> pval) list" where
  "color_entry color =
     (case color of None \<Rightarrow> [] | Some c \<Rightarrow> if c = [] then [] else [(''color'', Str c)])"

text \<open>\<open>color or fallback\<close>\<close>

definition color_or :: "string option \<Rightarrow> string \<Rightarrow> string" where
  "color_or color fallback =
     (case color of None \<Rightarrow> fallback | Some c \<Rightarrow> if c = [] then fallback else c)"

text \<open>
  The helper creators.  Every id comes from \<open>_generate_id(base, spec)\<close> with the scene as
  it was when the builder was called: the objects created so far are not part of it.
\<close>

definition mk_xform :: "rat list \<Rightarrow> vval \<Rightarrow> transform" where
  "mk_xform pos rot = \<lparr>position = Some (Vec pos), rotation = Some rot, scale = Some (Vec [1, 1, 1])\<rparr>"

definition add_box ::
  "spec option \<Rightarrow> rat \<Rightarrow> rat \<Rightarrow> rat \<Rightarrow> rat list \<Rightarrow> vval option \<Rightarrow> string option \<Rightarrow> obj" where
  "add_box sp w d h pos rot color =
     \<lparr>oid = Some (generate_id ''box'' sp), otype = Some ''box'',
      params = Some ([(''width'', Num w), (''depth'', Num d), (''height'', Num h)] @ color_entry color),
      xform = Some (mk_xform pos (rot_or_default rot))\<rparr>"

definition add_cyl ::
  "spec option \<Rightarrow> rat \<Rightarrow> rat \<Rightarrow> rat list \<Rightarrow> vval option \<Rightarrow> string option \<Rightarrow> obj" where
  "add_cyl sp radius depth pos rot color =
     \<lparr>oid = Some (generate_id ''cyl'' sp), otype = Some ''cylinder'',
      params = Some ([(''radius'', Num radius), (''depth'', Num depth)] @ color_entry color),
      xform = Some (mk_xform pos (rot_or_default rot))\<rparr>"

definition add_torus ::
  "spec option \<Rightarrow> rat \<Rightarrow> rat \<Rightarrow> rat list \<Rightarrow> vval option \<Rightarrow> string option \<Rightarrow> obj" where
  "add_torus sp radius tube pos rot color =
     \<lparr>oid = Some (generate_id ''torus'' sp), otype = Some ''torus'',
      params = Some ([(''radius'', Num radius), (''tube'', Num tube)] @ color_entry color),
      xform = Some (mk_xform pos (rot_or_default rot))\<rparr>"

definition add_sphere :: "spec option \<Rightarrow> rat \<Rightarrow> rat list \<Rightarrow> string option \<Rightarrow> obj" where
  "add_sphere sp radius pos color =
     \<lparr>oid = Some (generate_id ''sphere'' sp), otype = Some ''sphere'',
      params = Some ([(''radius'', Num radius)] @ color_entry color),
      xform = Some (mk_xform pos (Vec [0, 0, 0]))\<rparr>"

definition half_pi_x :: "vval option" where
  "half_pi_x = Some (Vec [fdiv math_pi 2, 0, 0])"

definition half_pi_y :: "vval option" where
  "half_pi_y = Some (Vec [0, fdiv math_pi 2, 0])"

definition composite_car :: "spec option \<Rightarrow> string option \<Rightarrow> rat list \<Rightarrow> obj list" where
  "composite_car sp color numbers =
     (let (length, width, height) =
            (if 3 \<le> length numbers then (numbers ! 0, numbers ! 1, numbers ! 2)
             else (8, dl 32 1, dl 22 1));
          body = \<lparr>oid = Some (generate_id ''car_body'' sp), otype = Some ''box'',
                  params = Some ([(''width'', Num width), (''depth'', Num length),
                                  (''height'', Num height)] @ color_entry color),
                  xform = Some (mk_xform [0, 0, fdiv height 2] (Vec [0, 0, 0]))\<rparr>;
          wheel_radius = max (dl 4 1) (fmul (min width height) (dl 34 2));
          wheel_tube = max (dl 12 2) (fmul wheel_radius (dl 2 1));
          z = wheel_radius;
          x_offset = fsub (fdiv width 2) (fmul wheel_radius (dl 8 1));
          y_offset = fsub (fdiv length 2) (fmul wheel_radius (dl 8 1))
      in body #
         concat (map (\<lambda>ox. map (\<lambda>oy.
             add_torus sp wheel_radius wheel_tube [ox, oy, z] half_pi_x (Some ''#20262f''))
           [- y_offset, y_offset]) [- x_offset, x_offset]))"

definition composite_gear :: "pylib \<Rightarrow> spec option \<Rightarrow> string option \<Rightarrow> obj list" where
  "composite_gear L sp color =
     (let r = 2; thickness = dl 6 1
      in add_cyl sp r thickness [0, 0, fdiv thickness 2] None (Some (color_or color ''#b9c6ff'')) #
         map (\<lambda>i.
           let ang = fmul (fdiv (fmul 2 math_pi) 16) (of_nat i);
               tx = fmul (lib_cos L ang) (fadd r (dl 3 1));
               ty = fmul (lib_sin L ang) (fadd r (dl 3 1))
           in add_box sp (dl 25 2) (dl 6 1) (fmul thickness (dl 7 1)) [tx, ty, fdiv thickness 2]
                (Some (Vec [0, 0, ang])) (Some ''#dfe6ff''))
           [0..<16])"

definition composite_pulley :: "spec option \<Rightarrow> string option \<Rightarrow> obj list" where
  "composite_pulley sp color =
     (let r = 2; tube = dl 35 2
      in [add_torus sp r tube [0, 0, fmul r (dl 25 2)] half_pi_x (Some (color_or color ''#9aa7ff'')),
          add_cyl sp (fmul r (dl 2 1)) (fmul r (dl 5 1)) [0, 0, fmul r (dl 25 2)] None
            (Some ''#2b3145'')])"

definition composite_ibeam :: "spec option \<Rightarrow> obj list" where
  "composite_ibeam sp =
     (let h = 4; w = dl 18 1; t = dl 3 1; d = 8
      in [add_box sp w d t [0, 0, fdiv t 2] None None,
          add_box sp w d t [0, 0, fsub h (fdiv t 2)] None None,
          add_box sp t d (fsub h t) [0, 0, fdiv (fsub h t) 2] None None])"

definition composite_bracket :: "spec option \<Rightarrow> obj list" where
  "composite_bracket sp =
     [add_box sp 3 (dl 5 1) (dl 4 1) [dl 15 1, 0, dl 2 1] None None,
      add_box sp (dl 5 1) 3 (dl 4 1) [dl 25 2, dl 15 1, dl 2 1] None None]"

definition composite_flange :: "spec option \<Rightarrow> obj list" where
  "composite_flange sp =
     [add_cyl sp 2 (dl 4 1) [0, 0, dl 2 1] None None,
      add_cyl sp (dl 7 1) (dl 12 1) [0, 0, dl 6 1] None None]"

definition composite_fan :: "pylib \<Rightarrow> spec option \<Rightarrow> obj list" where
  "composite_fan L sp =
     add_cyl sp (dl 6 1) (dl 4 1) [0, 0, dl 2 1] None None #
     map (\<lambda>i.
       let ang = fmul (fdiv (fmul 2 math_pi) 6) (of_nat i)
       in add_box sp (dl 2 1) 2 (dl 1 1)
            [fmul (lib_cos L ang) 1, fmul (lib_sin L ang) 1, dl 25 2]
            (Some (Vec [0, 0, ang])) None)
       [0..<6]"

definition composite_humanoid :: "spec option \<Rightarrow> string option \<Rightarrow> obj list" where
  "composite_humanoid sp color =
     (let torso_h = 4;
          torso = add_box sp (dl 22 1) (dl 12 1) torso_h [0, 0, fdiv torso_h 2] None
                    (Some (color_or color ''#9aa7ff''));
          head = add_sphere sp (dl 9 1) [0, 0, fadd torso_h (dl 11 1)]
                   (Some (color_or color ''#d6e4ff''));
          shoulder_z = fmul torso_h (dl 75 2);
          arm_len = dl 28 1;
          hip_z = fmul torso_h (dl 2 1);
          leg_len = 3
      in [torso, head] @
         concat (map (\<lambda>side.
           [add_cyl sp (dl 35 2) arm_len [side, 0, shoulder_z] half_pi_y
              (Some (color_or color ''#8da2ff'')),
            add_cyl sp (dl 3 1) (fmul arm_len (dl 8 1))
              [fmul side (dl 16 1), 0, fsub shoulder_z (fmul arm_len (dl 4 1))] half_pi_y
              (Some (color_or color ''#8da2ff'')),
            add_box sp (dl 6 1) (dl 4 1) (dl 4 1)
              [fmul side (dl 22 1), 0, fsub shoulder_z (fmul arm_len (dl 8 1))] None
              (Some (color_or color ''#ffcd8a''))])
           [- dl 14 1, dl 14 1]) @
         concat (map (\<lambda>side.
           [add_cyl sp (dl 45 2) leg_len [side, 0, hip_z] half_pi_y
              (Some (color_or color ''#9aa7ff'')),
            add_cyl sp (dl 38 2) (fmul leg_len (dl 85 2))
              [fmul side (dl 11 1), 0, fsub hip_z (fmul leg_len (dl 4 1))] half_pi_y
              (Some (color_or color ''#9aa7ff'')),
            add_box sp (dl 6 1) (dl 14 1) (dl 3 1)
              [fmul side (dl 13 1), dl 4 1, fsub hip_z (fmul leg_len (dl 9 1))] None
              (Some (color_or color ''#46506b''))])
           [- dl 8 1, dl 8 1]))"

text \<open>In the next two recipes the colour is handed to \<open>add_box\<close> in the position of
  \<open>rot\<close>, as the source does: the rotation entry of these boxes is a string.\<close>

definition composite_wheeled :: "spec option \<Rightarrow> string option \<Rightarrow> obj list" where
  "composite_wheeled sp color =
     [add_box sp (dl 24 1) 3 (dl 8 1) [0, 0, dl 4 1] (Some (Txt (color_or color ''#9aa7ff''))) None,
      add_cyl sp (dl 6 1) (dl 35 1) [0, 0, dl 22 1] None (Some (color_or color ''#8da2ff'')),
      add_box sp (dl 16 1) (dl 16 1) (dl 2 1) [0, 0, dl 32 1] None
        (Some (color_or color ''#d6e4ff''))] @
     concat (map (\<lambda>side.
       [add_torus sp (dl 8 1) (dl 25 2) [side, dl 13 1, dl 5 1] half_pi_x (Some ''#2b3145''),
        add_torus sp (dl 8 1) (dl 25 2) [side, - dl 13 1, dl 5 1] half_pi_x (Some ''#2b3145'')])
       [- dl 12 1, dl 12 1])"

definition composite_tracked :: "spec option \<Rightarrow> string option \<Rightarrow> obj list" where
  "composite_tracked sp color =
     [add_box sp (dl 36 1) 5 (dl 12 1) [0, 0, dl 6 1] (Some (Txt (color_or color ''#7582a6''))) None,
      add_box sp 2 (dl 26 1) 1 [0, 0, dl 18 1] (Some (Txt (color_or color ''#9aa7ff''))) None,
      add_cyl sp (dl 5 1) (dl 14 1) [0, 0, dl 26 1] None (Some (color_or color ''#d6e4ff'')),
      add_box sp (dl 8 1) (dl 12 1) (dl 5 1) [0, 0, dl 33 1] None
        (Some (color_or color ''#ffd670''))] @
     map (\<lambda>side. add_box sp (dl 7 1) (dl 52 1) 1 [side, 0, dl 5 1] None (Some ''#222833''))
       [- dl 21 1, dl 21 1]"

definition composite_robot_arm :: "spec option \<Rightarrow> string option \<Rightarrow> obj list" where
  "composite_robot_arm sp color =
     (let z = fadd 0 (dl 6 1)
      in add_cyl sp (dl 12 1) (dl 6 1) [0, 0, dl 3 1] None (Some (color_or color ''#9aa7ff'')) #
         map (\<lambda>i.
           add_cyl sp (fadd (dl 4 1) (fmul (dl 6 2) (of_int (6 - int i)))) (dl 18 1)
             [0, fmul (dl 7 1) (of_nat i), fadd z (dl 9 1)] half_pi_x
             (Some (color_or color ''#9aa7ff'')))
           [1..<6] @
         [add_box sp (dl 8 1) (dl 3 1) (dl 2 1) [0, dl 42 1, fadd z (dl 12 1)] None None])"

definition composite_quadcopter :: "spec option \<Rightarrow> obj list" where
  "composite_quadcopter sp =
     (let armL = dl 32 1; r = dl 7 1; a = fdiv armL 2
      in [add_box sp armL (dl 25 2) (dl 15 2) [0, 0, dl 75 3] None None,
          add_box sp (dl 25 2) armL (dl 15 2) [0, 0, dl 75 3] None None] @
         map (\<lambda>(ox, oy). add_torus sp r (dl 15 2) [ox, oy, dl 4 1] half_pi_x None)
           [(a, a), (a, - a), (- a, a), (- a, - a)])"

definition composite_hexacopter :: "pylib \<Rightarrow> spec option \<Rightarrow> obj list" where
  "composite_hexacopter L sp =
     (let armL = dl 36 1; r = dl 7 1
      in map (\<lambda>ang. add_box sp armL (dl 25 2) (dl 15 2) [0, 0, dl 75 3]
                     (Some (Vec [0, 0, ang])) None)
           [0, fdiv math_pi 3, fdiv (fmul 2 math_pi) 3] @
         map (\<lambda>i.
           let ang = fmul (of_nat i) (fdiv (fmul 2 math_pi) 6);
               ox = fmul (lib_cos L ang) (fdiv armL 2);
               oy = fmul (lib_sin L ang) (fdiv armL 2)
           in add_torus sp r (dl 15 2) [ox, oy, dl 4 1] half_pi_x None)
           [0..<6])"

definition composite_propeller :: "pylib \<Rightarrow> spec option \<Rightarrow> string \<Rightarrow> obj list" where
  "composite_propeller L sp low =
     (let blades = (if contains ''2'' low then 2 else if contains ''3'' low then 3 else 2 :: nat)
      in add_cyl sp (dl 3 1) (dl 2 1) [0, 0, dl 1 1] None None #
         map (\<lambda>i.
           let ang = fmul (of_nat i) (fdiv (fmul 2 math_pi) (of_nat blades))
           in add_box sp (dl 2 1) (dl 22 1) (dl 6 2)
                [fmul (lib_cos L ang) (dl 11 1), fmul (lib_sin L ang) (dl 11 1), dl 13 2]
                (Some (Vec [0, 0, ang])) None)
           [0..<blades])"

definition composite_rocket :: "pylib \<Rightarrow> spec option \<Rightarrow> string option \<Rightarrow> obj list" where
  "composite_rocket L sp color =
     (let body_r = dl 12 1; body_h = 8;
          color_body = color_or color ''#b9c6ff'';
          body = add_cyl sp body_r body_h [0, 0, fdiv body_h 2] half_pi_x (Some color_body);
          nose_h = max 2 (fmul body_r 2);
          nose = \<lparr>oid = Some (generate_id ''cone'' sp), otype = Some ''cone'',
                  params = Some ([(''radius'', Num (fmul body_r (dl 95 2))), (''height'', Num nose_h)]
                                 @ color_entry (Some color_body)),
                  xform = Some (mk_xform [0, 0, fadd body_h (fdiv nose_h 2)]
                                  (Vec [fdiv math_pi 2, 0, 0]))\<rparr>;
          ring = add_torus sp (fmul body_r (dl 9 1)) (dl 18 2) [0, 0, dl 2 1]
                   (Some (Vec [0, 0, 0])) (Some ''#2b3145'');
          fin_w = dl 15 2; fin_d = dl 12 1; fin_h = 1; fin_z = dl 6 1
      in [body, nose, ring] @
         map (\<lambda>ang.
           let x = fmul (lib_cos L ang) (fadd body_r (fmul fin_w 4));
               y = fmul (lib_sin L ang) (fadd body_r (fmul fin_w 4))
           in add_box sp fin_w fin_d fin_h [x, y, fin_z] (Some (Vec [0, 0, ang]))
                (Some ''#9aa7ff''))
           [0, fdiv math_pi 2, math_pi, fdiv (fmul 3 math_pi) 2])"

definition composite_scara :: "spec option \<Rightarrow> obj list" where
  "composite_scara sp =
     [add_cyl sp 1 (dl 5 1) [0, 0, dl 25 2] None None,
      add_box sp (dl 22 1) (dl 4 1) (dl 25 2) [dl 11 1, 0, dl 75 2] None None,
      add_box sp (dl 18 1) (dl 35 2) (dl 25 2) [2, 0, dl 75 2] None None,
      add_cyl sp (dl 25 2) (dl 12 1) [2, 0, dl 135 2] None None,
      add_box sp (dl 6 1) (dl 4 1) (dl 2 1) [2, 0, 2] None None]"

definition composite_delta :: "pylib \<Rightarrow> spec option \<Rightarrow> obj list" where
  "composite_delta L sp =
     [add_box sp (dl 24 1) (dl 24 1) (dl 2 1) [0, 0, dl 22 1] None None,
      add_box sp (dl 12 1) (dl 12 1) (dl 15 2) [0, 0, 1] None None] @
     map (\<lambda>ang.
       add_cyl sp (dl 12 2) (dl 12 1)
         [fmul (lib_cos L ang) (dl 11 1), fmul (lib_sin L ang) (dl 11 1), dl 16 1] None None)
       [0, fdiv (fmul 2 math_pi) 3, fdiv (fmul 4 math_pi) 3]"

definition composite_diff_drive :: "spec option \<Rightarrow> obj list" where
  "composite_diff_drive sp =
     (let wheel_r = dl 6 1
      in [add_box sp (dl 32 1) (dl 24 1) (dl 2 1) [0, 0, dl 1 1] None None,
          add_torus sp wheel_r (dl 15 2) [0, dl 12 1, wheel_r] half_pi_x None,
          add_torus sp wheel_r (dl 15 2) [0, - dl 12 1, wheel_r] half_pi_x None,
          add_cyl sp (dl 2 1) (dl 3 1) [- dl 13 1, 0, dl 15 2] None None])"

definition composite_mecanum :: "pylib \<Rightarrow> spec option \<Rightarrow> obj list" where
  "composite_mecanum L sp =
     add_torus sp 1 (dl 25 2) [0, 0, 1] half_pi_x None #
     map (\<lambda>i.
       let ang = fmul (of_nat i) (fdiv (fmul 2 math_pi) 8)
       in add_cyl sp (dl 15 2) (dl 8 1)
            [fmul (lib_cos L ang) (dl 9 1), fmul (lib_sin L ang) (dl 9 1), 1]
            (Some (Vec [0, ang, fdiv math_pi 4])) None)
       [0..<8]"

definition composite_gripper :: "pylib \<Rightarrow> spec option \<Rightarrow> string \<Rightarrow> obj list" where
  "composite_gripper L sp low =
     (let fingers = (if contains ''3'' low \<or> contains ''three'' low then 3 else 2 :: nat)
      in add_box sp (dl 12 1) (dl 6 1) (dl 25 2) [0, 0, dl 125 3] None None #
         map (\<lambda>i.
           let ang = (if fingers = 2 then (if i = 0 then - dl 3 1 else dl 3 1)
                      else (if i = 0 then - dl 5 1 else if i = 1 then 0 else dl 5 1))
           in add_box sp (dl 9 1) (dl 2 1) (dl 2 1)
                [fmul (dl 6 1) (lib_cos L ang), fmul (dl 6 1) (lib_sin L ang), dl 3 1]
                (Some (Vec [0, 0, ang])) None)
           [0..<fingers])"

definition composite_vacuum :: "spec option \<Rightarrow> obj list" where
  "composite_vacuum sp =
     [add_box sp (dl 12 1) (dl 12 1) (dl 1 1) [0, 0, dl 5 2] None None,
      add_torus sp (dl 5 1) (dl 18 2) [0, 0, dl 2 1] half_pi_x None]"

definition composite_enclosure :: "spec option \<Rightarrow> obj list" where
  "composite_enclosure sp =
     [add_box sp (dl 26 1) (dl 18 1) (dl 6 1) [0, 0, dl 3 1] None None,
      add_box sp (dl 26 1) (dl 18 1) (dl 1 1) [0, 0, dl 65 2] None None,
      add_box sp (dl 22 1) (dl 8 2) (dl 2 2) [0, - dl 6 1, dl 62 2] None None,
      add_box sp (dl 22 1) (dl 8 2) (dl 2 2) [0, - dl 3 1, dl 62 2] None None]"

definition composite_caster :: "spec option \<Rightarrow> obj list" where
  "composite_caster sp =
     [add_box sp (dl 6 1) (dl 4 1) (dl 2 1) [0, 0, dl 9 1] None None,
      add_cyl sp (dl 15 2) (dl 5 1) [0, 0, dl 115 2] None None,
      add_torus sp (dl 5 1) (dl 14 2) [0, 0, dl 5 1] half_pi_x None]"

definition composite_lidar :: "spec option \<Rightarrow> obj list" where
  "composite_lidar sp =
     [add_box sp (dl 18 1) (dl 18 1) (dl 15 2) [0, 0, dl 75 3] None None,
      add_torus sp (dl 7 1) (dl 12 2) [0, 0, dl 4 1] half_pi_x None,
      add_cyl sp (dl 12 2) (dl 6 1) [dl 8 1, dl 8 1, dl 3 1] None None]"

definition composite_gimbal :: "spec option \<Rightarrow> obj list" where
  "composite_gimbal sp =
     [add_torus sp (dl 12 1) (dl 12 2) [0, 0, 1] None None,
      add_torus sp (dl 9 1) (dl 1 1) [0, 0, 1] half_pi_y None,
      add_box sp (dl 9 1) (dl 6 1) (dl 5 1) [0, 0, dl 9 1] None None,
      add_cyl sp (dl 25 2) (dl 25 2) [dl 45 2, 0, dl 95 2] half_pi_y None]"

definition composite_wire_clip :: "spec option \<Rightarrow> obj list" where
  "composite_wire_clip sp =
     [add_box sp (dl 16 1) (dl 5 1) (dl 2 1) [0, 0, dl 1 1] None None,
      add_torus sp (dl 6 1) (dl 18 2) [0, 0, dl 3 1] None None]"

definition composite_sensor_mount :: "spec option \<Rightarrow> obj list" where
  "composite_sensor_mount sp =
     [add_box sp 2 (dl 8 1) (dl 15 2) [0, 0, dl 75 3] None None,
      add_cyl sp (dl 35 2) (dl 4 1) [- dl 5 1, 0, dl 35 2] None None,
      add_cyl sp (dl 35 2) (dl 4 1) [dl 5 1, 0, dl 35 2] None None]"

text \<open>The base plate of the Raspberry Pi mount is created but never appended.\<close>

definition composite_rpi_mount :: "spec option \<Rightarrow> obj list" where
  "composite_rpi_mount sp =
     map (\<lambda>(x, y). add_cyl sp (dl 1 1) (dl 4 1) [x, y, dl 3 1] None None)
       [(- dl 11 1, - dl 8 1), (dl 11 1, - dl 8 1), (- dl 11 1, dl 8 1), (dl 11 1, dl 8 1)]"

definition composite_pdb_case :: "spec option \<Rightarrow> obj list" where
  "composite_pdb_case sp =
     [add_box sp (dl 22 1) (dl 22 1) (dl 7 1) [0, 0, dl 35 2] None None,
      add_box sp (dl 18 1) (dl 1 1) (dl 5 2) [0, dl 8 1, dl 7 1] None None]"

definition composite_fan_duct :: "spec option \<Rightarrow> obj list" where
  "composite_fan_duct sp =
     [add_box sp (dl 14 1) (dl 14 1) (dl 6 1) [- dl 7 1, 0, dl 3 1] None None,
      add_box sp 1 1 (dl 6 1) [dl 6 1, 0, dl 3 1] None None,
      add_box sp (dl 8 1) 1 (dl 6 1) [0, 0, dl 3 1] None None]"

definition composite_cable_protector :: "spec option \<Rightarrow> obj list" where
  "composite_cable_protector sp =
     map (\<lambda>i. add_box sp (dl 2 1) 1 (dl 1 1)
                 [fadd (- dl 125 2) (fmul (of_nat i) (dl 5 1)), 0, dl 2 1] None None)
       [0..<6] @
     [add_box sp 3 1 (dl 15 2) [0, 0, dl 75 3] None None]"

definition composite_hub_motor :: "spec option \<Rightarrow> obj list" where
  "composite_hub_motor sp =
     [add_torus sp (dl 11 1) (dl 2 1) [0, 0, 1] half_pi_x None,
      add_cyl sp (dl 5 1) (dl 6 1) [0, 0, dl 3 1] None None]"

definition composite_suspension :: "spec option \<Rightarrow> obj list" where
  "composite_suspension sp =
     [add_torus sp (dl 5 1) (dl 12 2) [0, 0, dl 7 1] None None,
      add_box sp (dl 16 1) (dl 3 1) (dl 2 1) [dl 8 1, 0, dl 4 1] None None]"

definition composite_camera_housing :: "spec option \<Rightarrow> obj list" where
  "composite_camera_housing sp =
     [add_box sp (dl 12 1) (dl 9 1) (dl 7 1) [0, 0, dl 35 2] None None,
      add_cyl sp (dl 25 2) (dl 35 2) [dl 6 1, 0, dl 5 1] half_pi_y None]"

text \<open>A sphere written out as a literal, with the id base \<open>sph\<close>.\<close>

definition sph_literal :: "spec option \<Rightarrow> rat \<Rightarrow> rat list \<Rightarrow> rat list \<Rightarrow> obj" where
  "sph_literal sp radius pos scl =
     \<lparr>oid = Some (generate_id ''sph'' sp), otype = Some ''sphere'',
      params = Some [(''radius'', Num radius)],
      xform = Some \<lparr>position = Some (Vec pos), rotation = Some (Vec [0, 0, 0]),
                    scale = Some (Vec scl)\<rparr>\<rparr>"

definition composite_robot_head :: "spec option \<Rightarrow> obj list" where
  "composite_robot_head sp =
     [sph_literal sp (dl 8 1) [0, 0, dl 8 1] [1, 1, 1],
      add_cyl sp (dl 12 2) (dl 2 1) [dl 25 2, dl 2 1, dl 9 1] half_pi_y None,
      add_cyl sp (dl 12 2) (dl 2 1) [dl 25 2, - dl 2 1, dl 9 1] half_pi_y None]"

definition composite_arm_link :: "spec option \<Rightarrow> obj list" where
  "composite_arm_link sp = [add_cyl sp (dl 35 2) 2 [0, 1, 1] half_pi_x None]"

definition composite_wrist_joint :: "spec option \<Rightarrow> obj list" where
  "composite_wrist_joint sp =
     [add_cyl sp (dl 5 1) (dl 8 1) [0, 0, dl 4 1] None None,
      add_torus sp (dl 6 1) (dl 1 1) [0, 0, dl 8 1] None None]"

definition composite_tool_changer :: "pylib \<Rightarrow> spec option \<Rightarrow> obj list" where
  "composite_tool_changer L sp =
     map (\<lambda>i.
       let ang = fmul (fdiv (fmul 2 math_pi) 6) (of_nat i)
       in add_cyl sp (dl 8 2) (dl 25 2)
            [fmul (lib_cos L ang) (dl 6 1), fmul (lib_sin L ang) (dl 6 1), dl 125 3] None None)
       [0..<6] @
     [add_box sp (dl 18 1) (dl 18 1) (dl 2 1) [0, 0, dl 1 1] None None,
      add_torus sp (dl 7 1) (dl 12 2) [0, 0, dl 25 2] None None]"

definition composite_base_frame :: "spec option \<Rightarrow> obj list" where
  "composite_base_frame sp =
     (let w = 4; d = 3; h = dl 25 2
      in [add_box sp w (dl 25 2) h [0, fdiv d 2, fdiv h 2] None None,
          add_box sp w (dl 25 2) h [0, fdiv (- d) 2, fdiv h 2] None None,
          add_box sp (dl 25 2) d h [fdiv w 2, 0, fdiv h 2] None None,
          add_box sp (dl 25 2) d h [fdiv (- w) 2, 0, fdiv h 2] None None])"

definition composite_joint_cover :: "spec option \<Rightarrow> obj list" where
  "composite_joint_cover sp = [sph_literal sp (dl 9 1) [0, 0, dl 9 1] [1, 1, dl 6 1]]"

definition composite_axis_housing :: "spec option \<Rightarrow> obj list" where
  "composite_axis_housing sp = [add_cyl sp (dl 6 1) (dl 22 1) [0, 0, dl 11 1] None None]"

definition composite_cable_harness :: "spec option \<Rightarrow> obj list" where
  "composite_cable_harness sp =
     map (\<lambda>i. add_cyl sp (dl 6 2) (dl 22 1)
                 [fadd (- dl 2 1) (fmul (of_nat i) (dl 1 1)), 0, dl 11 1] half_pi_y None)
       [0..<5]"

definition composite_battery_holder :: "spec option \<Rightarrow> obj list" where
  "composite_battery_holder sp =
     [add_box sp (dl 22 1) (dl 12 1) (dl 2 1) [0, 0, dl 1 1] None None,
      add_cyl sp (dl 3 1) 1 [- dl 6 1, 0, dl 5 1] half_pi_y None,
      add_cyl sp (dl 3 1) 1 [dl 6 1, 0, dl 5 1] half_pi_y None]"

definition composite_track_system :: "spec option \<Rightarrow> obj list" where
  "composite_track_system sp =
     [add_box sp 4 2 (dl 3 1) [0, 0, dl 15 2] None None,
      add_torus sp 1 (dl 2 1) [- dl 18 1, 0, dl 6 1] half_pi_x None,
      add_torus sp 1 (dl 2 1) [dl 18 1, 0, dl 6 1] half_pi_x None]"

definition composite_table :: "spec option \<Rightarrow> obj list" where
  "composite_table sp =
     (let top_w = 3; top_d = dl 16 1; top_h = dl 15 2; leg_h = dl 8 1
      in add_box sp top_w top_d top_h [0, 0, dl 8 1] None None #
         concat (map (\<lambda>sx. map (\<lambda>sy.
             add_cyl sp (dl 7 2) leg_h
               [fmul (of_int sx) (fsub (fdiv top_w 2) (dl 15 2)),
                fmul (of_int sy) (fsub (fdiv top_d 2) (dl 15 2)), fdiv leg_h 2] None None)
           [- 1, 1]) [- 1, 1]))"

definition composite_chair :: "spec option \<Rightarrow> obj list" where
  "composite_chair sp =
     (let seat_w = dl 12 1; seat_d = dl 12 1; seat_h = dl 1 1
      in add_box sp seat_w seat_d seat_h [0, 0, dl 55 2] None None #
         concat (map (\<lambda>sx. map (\<lambda>sy.
             add_cyl sp (dl 6 2) (dl 55 2)
               [fmul (of_int sx) (fsub (fdiv seat_w 2) (dl 1 1)),
                fmul (of_int sy) (fsub (fdiv seat_d 2) (dl 1 1)), dl 275 3] None None)
           [- 1, 1]) [- 1, 1]) @
         [add_box sp (dl 12 1) (dl 1 1) 1 [0, - (fsub (fdiv seat_d 2) (dl 5 2)), dl 105 2]
            None None])"

definition composite_cup :: "spec option \<Rightarrow> obj list" where
  "composite_cup sp =
     [add_cyl sp (dl 6 1) 1 [0, 0, dl 5 1] None None,
      add_torus sp (dl 6 1) (dl 1 1) [0, 0, dl 102 2] None None]"

definition composite_bowl :: "spec option \<Rightarrow> obj list" where
  "composite_bowl sp = [sph_literal sp (dl 8 1) [0, 0, dl 8 1] [1, 1, dl 6 1]]"

definition composite_vase :: "spec option \<Rightarrow> obj list" where
  "composite_vase sp =
     [add_cyl sp (dl 5 1) (dl 16 1) [0, 0, dl 8 1] None None,
      add_torus sp (dl 5 1) (dl 12 2) [0, 0, dl 165 2] None None]"

text \<open>The catalogue of mechanical parts that only get the generic assembly.\<close>

definition FIRST100_KEYWORDS :: "(string \<times> string list) list" where
  "FIRST100_KEYWORDS = [
     (''gear (spur)'', [''spur gear'', ''gear (spur)'', ''gear'']),
     (''helical gear'', [''helical gear'']),
     (''planetary gear system'', [''planetary gear'', ''planet gear'', ''sun gear'', ''ring gear'']),
     (''shaft coupling'', [''shaft coupling'', ''coupling'']),
     (''bearing housing'', [''bearing housing'']),
     (''ball bearing assembly'', [''ball bearing'', ''bearing'']),
     (''pulley'', [''pulley'']),
     (''chain drive'', [''chain drive'']),
     (''belt drive'', [''belt drive'']),
     (''flywheel'', [''flywheel'']),
     (''crankshaft'', [''crankshaft'']),
     (''connecting rod'', [''connecting rod'', ''conrod'']),
     (''piston'', [''piston'']),
     (''engine block'', [''engine block'']),
     (''camshaft'', [''camshaft'']),
     (''valve assembly'', [''valve assembly'']),
     (''clutch plate'', [''clutch plate'']),
     (''differential gear'', [''differential'']),
     (''axle hub'', [''axle hub'']),
     (''suspension arm'', [''suspension arm'']),
     (''shock absorber'', [''shock absorber'']),
     (''hydraulic piston'', [''hydraulic piston'']),
     (''compressor rotor'', [''compressor rotor'']),
     (''turbine blade'', [''turbine blade'']),
     (''centrifugal pump impeller'', [''impeller'', ''centrifugal pump'']),
     (''gearbox casing'', [''gearbox casing'']),
     (''worm gear'', [''worm gear'']),
     (''sprocket'', [''sprocket'']),
     (''universal joint'', [''universal joint'', ''u-joint'']),
     (''threaded bolt'', [''threaded bolt'', ''bolt'']),
     (''nut and washer'', [''nut and washer'', ''nut'', ''washer'']),
     (''fastener set'', [''fastener set'']),
     (''l-bracket'', [''l-bracket'', ''l bracket'']),
     (''structural beam'', [''structural beam'', ''i-beam'', ''ibeam'', ''i beam'']),
     (''angle section'', [''angle section'', ''angle profile'']),
     (''pipe joint'', [''pipe joint'']),
     (''pipe flange'', [''pipe flange'', ''flange'']),
     (''pressure valve'', [''pressure valve'']),
     (''ball valve'', [''ball valve'']),
     (''gate valve'', [''gate valve'']),
     (''manifold'', [''manifold'']),
     (''heat exchanger'', [''heat exchanger'']),
     (''radiator fin'', [''radiator fin'']),
     (''cooling fan'', [''cooling fan'']),
     (''air duct'', [''air duct'']),
     (''vent grill'', [''vent grill'', ''vent grille'']),
     (''bearing block'', [''bearing block'']),
     (''key and keyway'', [''keyway'', ''key and keyway'']),
     (''splined shaft'', [''splined shaft'']),
     (''tool holder'', [''tool holder'']),
     (''cnc fixture'', [''cnc fixture'', ''fixture'']),
     (''milling vice'', [''milling vice'', ''milling vise'']),
     (''drill chuck'', [''drill chuck'']),
     (''end mill'', [''end mill'']),
     (''lathe toolpost'', [''lathe toolpost'', ''toolpost'']),
     (''machine base'', [''machine base'']),
     (''robot arm joint'', [''robot arm joint'']),
     (''rotary actuator'', [''rotary actuator'']),
     (''pneumatic cylinder'', [''pneumatic cylinder'']),
     (''servo motor housing'', [''servo motor housing'']),
     (''motor mount plate'', [''motor mount plate'']),
     (''stepper motor bracket'', [''stepper motor bracket'']),
     (''gear reducer casing'', [''gear reducer casing'']),
     (''sensor mount'', [''sensor mount'']),
     (''optical encoder housing'', [''optical encoder housing'']),
     (''bearing seat'', [''bearing seat'']),
     (''cam follower'', [''cam follower'']),
     (''belt tensioner'', [''belt tensioner'']),
     (''timing pulley'', [''timing pulley'']),
     (''linear guide rail'', [''linear guide rail'']),
     (''lead screw'', [''lead screw'']),
     (''ball screw nut'', [''ball screw nut'']),
     (''machine column'', [''machine column'']),
     (''cross-slide assembly'', [''cross-slide'', ''cross slide'']),
     (''rotary table'', [''rotary table'']),
     (''tool changer'', [''tool changer'']),
     (''workpiece clamp'', [''workpiece clamp'']),
     (''jig plate'', [''jig plate'']),
     (''spacer'', [''spacer'']),
     (''washer types'', [''washer types'', ''spring washer'', ''flat washer'']),
     (''retaining ring'', [''retaining ring'']),
     (''snap fit joint'', [''snap fit joint'', ''snap-fit'']),
     (''dowel pin'', [''dowel pin'']),
     (''locating pin'', [''locating pin'']),
     (''rivet'', [''rivet'']),
     (''welded frame'', [''welded frame'']),
     (''extruded aluminum profile'', [''extruded aluminum profile'', ''aluminum extruded profile'']),
     (''mounting bracket set'', [''mounting bracket set'', ''mounting bracket'']),
     (''cooling fin block'', [''cooling fin block'']),
     (''shaft support'', [''shaft support'']),
     (''pulley belt system'', [''pulley belt system'']),
     (''chain tensioner'', [''chain tensioner'']),
     (''sealing ring'', [''sealing ring'']),
     (''bearing cage'', [''bearing cage'']),
     (''spur gearbox assembly'', [''spur gearbox'']),
     (''worm drive'', [''worm drive'']),
     (''rack and pinion'', [''rack and pinion'']),
     (''geneva wheel'', [''geneva wheel'']),
     (''toggle clamp'', [''toggle clamp'']),
     (''industrial fan assembly'', [''industrial fan'', ''industrial fan assembly''])]"

definition composite_generic :: "pylib \<Rightarrow> spec option \<Rightarrow> string option \<Rightarrow> obj list" where
  "composite_generic L sp color =
     (let hub_r = dl 6 1
      in [add_box sp (dl 32 1) (dl 32 1) (dl 18 2) [0, 0, dl 9 2] None
            (Some (color_or color ''#1f2333'')),
          add_cyl sp (dl 35 2) (dl 24 1) [0, 0, dl 12 1] None (Some (color_or color ''#9aa7ff'')),
          add_torus sp (dl 14 1) (dl 22 2) [dl 16 1, 0, dl 7 1] half_pi_x (Some ''#20262f''),
          add_cyl sp (dl 11 1) (dl 3 1) [- dl 16 1, 0, dl 15 2] None
            (Some (color_or color ''#b9c6ff'')),
          add_cyl sp hub_r (dl 5 1) [0, 0, dl 25 2] None (Some ''#2b3145'')] @
         map (\<lambda>i.
           let ang = fmul (fdiv (fmul 2 math_pi) 6) (of_nat i);
               bx = fmul (lib_cos L ang) 1;
               by = fmul (lib_sin L ang) 1
           in add_cyl sp (dl 8 2) (dl 25 2) [bx, by, dl 125 3] None (Some ''#dfe6ff''))
           [0..<6])"

text \<open>The dispatch: the first recipe whose keywords occur in the lower-cased text.\<close>

definition build_composite_objects ::
  "pylib \<Rightarrow> string \<Rightarrow> spec option \<Rightarrow> rat list \<Rightarrow> obj list" where
  "build_composite_objects L text sp numbers =
     (let low = py_lower text; color = color_from_text text
      in if contains_any low [''car'', ''vehicle'', ''automobile'', ''sedan'', ''suv'', ''coupe'']
         then composite_car sp color numbers
         else if contains ''gear'' low \<and> \<not> contains ''helical'' low \<and> \<not> contains ''worm'' low
                 \<and> \<not> contains ''bevel'' low
         then composite_gear L sp color
         else if contains_any low [''pulley'', ''sprocket'', ''timing pulley'']
         then composite_pulley sp color
         else if contains_any low [''i-beam'', ''ibeam'', ''i beam'', ''structural beam'']
         then composite_ibeam sp
         else if contains_any low [''l-bracket'', ''l bracket'', ''mounting bracket'']
         then composite_bracket sp
         else if contains_any low [''flange'', ''pipe flange'']
         then composite_flange sp
         else if contains_any low [''fan'', ''impeller'']
         then composite_fan L sp
         else if contains_any low [''humanoid'', ''android'', ''biped robot'', ''service robot'']
         then composite_humanoid sp color
         else if contains_any low [''service robot'', ''delivery robot'', ''wheeled robot'',
                                   ''autonomous cart'']
         then composite_wheeled sp color
         else if contains_any low [''tracked robot'', ''tank robot'', ''exploration robot'']
         then composite_tracked sp color
         else if contains_any low [''robot arm'', ''6 dof'', ''6dof'']
         then composite_robot_arm sp color
         else if contains_any low [''quadcopter'', ''drone frame'', ''drone'']
         then composite_quadcopter sp
         else if contains_any low [''hexacopter'']
         then composite_hexacopter L sp
         else if contains_any low [''drone propeller'', ''propeller'']
         then composite_propeller L sp low
         else if contains_any low [''rocket'', ''spacecraft'', ''spaceship'', ''shuttle'']
         then composite_rocket L sp color
         else if contains_any low [''scara robot'', ''scara'']
         then composite_scara sp
         else if contains_any low [''delta robot'']
         then composite_delta L sp
         else if contains_any low [''differential drive'', ''robot chassis'']
         then composite_diff_drive sp
         else if contains_any low [''mecanum wheel'', ''omni wheel'']
         then composite_mecanum L sp
         else if contains_any low [''gripper claw'', ''parallel gripper'', ''3-finger'',
                                   ''three-finger'']
         then composite_gripper L sp low
         else if contains_any low [''vacuum gripper'', ''suction pad'', ''suction'']
         then composite_vacuum sp
         else if contains_any low [''arduino enclosure'', ''pcb enclosure'', ''imu case'',
                                   ''controller enclosure'', ''controller case'']
         then composite_enclosure sp
         else if contains_any low [''caster wheel'']
         then composite_caster sp
         else if contains_any low [''lidar mount'', ''lidar'']
         then composite_lidar sp
         else if contains_any low [''gimbal'', ''camera gimbal'', ''gimbal assembly'',
                                   ''camera gimbal housing'']
         then composite_gimbal sp
         else if contains_any low [''wire routing clip'', ''cable management bracket'',
                                   ''cable clip'']
         then composite_wire_clip sp
         else if contains_any low [''sensor mount'', ''ultrasonic'', ''ir sensor mount'']
         then composite_sensor_mount sp
         else if contains_any low [''raspberry pi mount'', ''rpi mount'']
         then composite_rpi_mount sp
         else if contains_any low [''power distribution board case'', ''pdb case'']
         then composite_pdb_case sp
         else if contains_any low [''cooling fan duct'', ''fan duct'']
         then composite_fan_duct sp
         else if contains_any low [''cable protector'']
         then composite_cable_protector sp
         else if contains_any low [''wheel hub motor'']
         then composite_hub_motor sp
         else if contains_any low [''suspension'']
         then composite_suspension sp
         else if contains_any low [''camera housing'']
         then composite_camera_housing sp
         else if contains_any low [''robot head'']
         then composite_robot_head sp
         else if contains_any low [''arm link'']
         then composite_arm_link sp
         else if contains_any low [''wrist joint'']
         then composite_wrist_joint sp
         else if contains_any low [''tool changer'', ''end effector interface'',
                                   ''force-torque sensor mount'']
         then composite_tool_changer L sp
         else if contains_any low [''robot base frame'']
         then composite_base_frame sp
         else if contains_any low [''joint cover'']
         then composite_joint_cover sp
         else if contains_any low [''axis housing'']
         then composite_axis_housing sp
         else if contains_any low [''cable harness'']
         then composite_cable_harness sp
         else if contains_any low [''battery holder'']
         then composite_battery_holder sp
         else if contains_any low [''track system'', ''tank robot'', ''tracks'']
         then composite_track_system sp
         else if contains ''table'' low
         then composite_table sp
         else if contains_any low [''chair'', ''stool'']
         then composite_chair sp
         else if contains_any low [''cup'', ''mug'']
         then composite_cup sp
         else if contains ''bowl'' low
         then composite_bowl sp
         else if contains_any low [''vase'', ''parametric vase'']
         then composite_vase sp
         else if list_ex (\<lambda>(name, phrases). contains_any low phrases) FIRST100_KEYWORDS
         then composite_generic L sp color
         else [])"

section \<open>New, external, duplicated and replaced objects\<close>

text \<open>\<open>path.split(".")[-1]\<close>: what follows the last point.\<close>

definition after_last_point :: "string \<Rightarrow> string" where
  "after_last_point path = rev (takeWhile (\<lambda>c. c \<noteq> CHR ''.'') (rev path))"

definition build_external_model ::
  "pylib \<Rightarrow> string \<Rightarrow> string \<Rightarrow> spec option \<Rightarrow> py_error + obj option" where
  "build_external_model L url text sp =
     bind_err (url_path L url) (\<lambda>path.
       let ext = (if contains ''.'' path then py_lower (after_last_point path) else [])
       in if ext \<notin> set [''gltf'', ''glb'', ''obj'', ''fbx'', ''stl''] then Inr None
          else
            let ps = [(''url'', Str url), (''format'', Str ext)]
            in Inr (Some \<lparr>oid = Some (generate_id ''model'' sp),
                            otype = Some ''external_model'',
                            params = Some (case color_from_text text of
                                             None \<Rightarrow> ps
                                           | Some color \<Rightarrow> AList.update ''color'' (Str color) ps),
                            xform = Some default_transform\<rparr>))"

definition base_names :: "(string \<times> string) list" where
  "base_names = [(''box'', ''box''), (''cylinder'', ''cyl''), (''sphere'', ''sph''),
                 (''cone'', ''cone''), (''torus'', ''torus''), (''plane'', ''plane''),
                 (''external_model'', ''model''), (''assembly'', ''asm'')]"

definition build_new_object :: "string \<Rightarrow> spec option \<Rightarrow> rat list \<Rightarrow> py_error + obj" where
  "build_new_object text sp numbers =
     (let low = py_lower text;
          obj_type =
            (if contains_any low [''robot hand'', ''robotic hand'', ''gripper'', ''end effector'',
                                  ''bicycle'', ''bike'']
                \<or> (contains ''mechanism'' low \<and> (contains ''hand'' low \<or> contains ''finger'' low))
             then ''assembly'' else detect_object_type text)
      in bind_err (default_params_for_type obj_type text numbers) (\<lambda>ps.
           Inr \<lparr>oid = Some (generate_id (case map_of base_names obj_type of
                                           None \<Rightarrow> ''obj'' | Some b \<Rightarrow> b) sp),
                otype = Some obj_type,
                params = Some (case color_from_text text of
                                 None \<Rightarrow> ps
                               | Some color \<Rightarrow> AList.update ''color'' (Str color) ps),
                xform = Some default_transform\<rparr>))"

text \<open>
  \<open>_duplicate_object\<close>: the deep copy of the target gets a new id and is shifted by 2
  along x.  The argument is the value of the target; the result is the value of the copy.
  Adding \<open>2.0\<close> to a character of a string raises \<open>TypeError\<close>.
\<close>

definition duplicate_object :: "obj \<Rightarrow> spec option \<Rightarrow> py_error + obj" where
  "duplicate_object target sp =
     (let base = (case otype target of None \<Rightarrow> ''obj'' | Some t \<Rightarrow> if t = [] then ''obj'' else t);
          copy_obj = target\<lparr>oid := Some (generate_id base sp)\<rparr>
      in bind_err (ensure_transform copy_obj) (\<lambda>(p, r, s).
           case p of
             Txt t \<Rightarrow> Inl TypeError
           | Vec xs \<Rightarrow> Inr (with_xf copy_obj (Vec [fadd (xs ! 0) 2, xs ! 1, xs ! 2], r, s))))"

text \<open>Truth of a parameter value: a non-empty string, a number other than zero.\<close>

definition pval_truthy :: "pval \<Rightarrow> bool" where
  "pval_truthy v = (case v of Num x \<Rightarrow> x \<noteq> 0 | Str t \<Rightarrow> t \<noteq> [])"

text \<open>
  Equality of dictionaries does not depend on the order of the keys: two objects are
  equal when their entries are.
\<close>

definition dict_eq :: "(string \<times> pval) list \<Rightarrow> (string \<times> pval) list \<Rightarrow> bool" where
  "dict_eq ps qs =
     (set (map fst ps) = set (map fst qs) \<and> list_all (\<lambda>k. map_of ps k = map_of qs k) (map fst ps))"

definition obj_eq :: "obj \<Rightarrow> obj \<Rightarrow> bool" where
  "obj_eq a b =
     (oid a = oid b \<and> otype a = otype b \<and> xform a = xform b \<and>
      (case (params a, params b) of
         (None, None) \<Rightarrow> True
       | (Some ps, Some qs) \<Rightarrow> dict_eq ps qs
       | _ \<Rightarrow> False))"

text \<open>
  The object that \<open>_replace_object\<close> builds from the target as \<open>_ensure_transform\<close> left
  it: the transform and, unless the text names a colour, the colour are kept, and so is
  the id when there is one.
\<close>

definition replacement_for ::
  "obj \<Rightarrow> vval \<times> vval \<times> vval \<Rightarrow> spec option \<Rightarrow> string \<Rightarrow> string \<Rightarrow> (string \<times> pval) list \<Rightarrow> obj"
  where
  "replacement_for target t sp text new_type ps =
     (let color = (case color_from_text text of
                     Some c \<Rightarrow> Some (Str c)
                   | None \<Rightarrow> map_of (get_params target) ''color'');
          rid = (case oid target of
                   None \<Rightarrow> generate_id new_type sp
                 | Some i \<Rightarrow> if i = [] then generate_id new_type sp else i)
      in with_xf \<lparr>oid = Some rid, otype = Some new_type,
                  params = Some (case color of
                                   None \<Rightarrow> ps
                                 | Some c \<Rightarrow> if pval_truthy c then AList.update ''color'' c ps
                                             else ps),
                  xform = None\<rparr> t)"

section \<open>The scene store\<close>

text \<open>
  The orchestrator works on mutable dictionaries and lists.  The store has three kinds
  of cells, each kind addressed by the index in its list: objects (with their parameters
  and transform, which no two objects share), lists of object references, and scene
  dictionaries, whose only entry \<open>objects\<close> is a reference to a list or is absent.  A
  scene reference is \<open>None\<close> or the address of a dictionary.
\<close>

record heap =
  objs :: "obj list"
  lsts :: "nat list list"
  dcts :: "nat option list"

definition read_objs :: "heap \<Rightarrow> nat list \<Rightarrow> obj list" where
  "read_objs h as = map (\<lambda>a. objs h ! a) as"

text \<open>The value of a scene: what serialising it would give.\<close>

definition read_spec :: "heap \<Rightarrow> nat \<Rightarrow> spec" where
  "read_spec h d = \<lparr>objects = map_option (\<lambda>l. read_objs h (lsts h ! l)) (dcts h ! d)\<rparr>"

definition read_spec_opt :: "heap \<Rightarrow> nat option \<Rightarrow> spec option" where
  "read_spec_opt h sp = map_option (read_spec h) sp"

text \<open>\<open>spec.get("objects", [])\<close> as references.\<close>

definition dict_list :: "heap \<Rightarrow> nat \<Rightarrow> nat list" where
  "dict_list h d = (case dcts h ! d of None \<Rightarrow> [] | Some l \<Rightarrow> lsts h ! l)"

definition alloc_objs :: "obj list \<Rightarrow> heap \<Rightarrow> nat list \<times> heap" where
  "alloc_objs obs h =
     ([length (objs h)..<length (objs h) + length obs], h\<lparr>objs := objs h @ obs\<rparr>)"

text \<open>A new dictionary \<open>{"objects": as}\<close> with a new list.\<close>

definition new_scene :: "nat list \<Rightarrow> heap \<Rightarrow> nat \<times> heap" where
  "new_scene as h =
     (length (dcts h),
      h\<lparr>lsts := lsts h @ [as], dcts := dcts h @ [Some (length (lsts h))]\<rparr>)"

text \<open>
  \<open>copy.deepcopy\<close> of an object list: every object is copied once, and a reference that
  occurs again is mapped to the same copy (the memo of \<open>deepcopy\<close>).
\<close>

fun copy_objs :: "nat list \<Rightarrow> (nat \<times> nat) list \<Rightarrow> obj list \<Rightarrow> nat list \<times> obj list" where
  "copy_objs [] memo os = ([], os)"
| "copy_objs (a # as) memo os =
     (case map_of memo a of
        Some b \<Rightarrow> (case copy_objs as memo os of (bs, os') \<Rightarrow> (b # bs, os'))
      | None \<Rightarrow>
          (case copy_objs as ((a, length os) # memo) (os @ [os ! a]) of
             (bs, os') \<Rightarrow> (length os # bs, os')))"

definition copy_dict :: "nat \<Rightarrow> heap \<Rightarrow> nat \<times> heap" where
  "copy_dict d h =
     (case dcts h ! d of
        None \<Rightarrow> (length (dcts h), h\<lparr>dcts := dcts h @ [None]\<rparr>)
      | Some l \<Rightarrow>
          (case copy_objs (lsts h ! l) [] (objs h) of
             (bs, os') \<Rightarrow> new_scene bs (h\<lparr>objs := os'\<rparr>)))"

definition clone_spec :: "nat option \<Rightarrow> heap \<Rightarrow> nat option \<times> heap" where
  "clone_spec sp h =
     (case sp of
        None \<Rightarrow> (None, h)
      | Some d \<Rightarrow> (case copy_dict d h of (d', h') \<Rightarrow> (Some d', h')))"

text \<open>
  \<open>_apply_removal\<close> on the store.  \<open>list(spec.get("objects", []))\<close> is a new list of the
  same references; the result of a removal is a deep copy of the scene whose \<open>objects\<close>
  entry is set to that list after the \<open>pop\<close>.
\<close>

definition remove_ref :: "string \<Rightarrow> nat option \<Rightarrow> heap \<Rightarrow> nat option \<times> heap" where
  "remove_ref low sp h =
     (case sp of
        None \<Rightarrow> (None, h)
      | Some d \<Rightarrow>
          if contains_any low clear_words
          then (case new_scene [] h of (d', h') \<Rightarrow> (Some d', h'))
          else if contains_any low remove_words then
            (let as = dict_list h d
             in if as = [] then (Some d, h)
                else
                  let l' = length (lsts h);
                      h1 = h\<lparr>lsts := lsts h @ [pop_at (removal_index low (read_objs h as)) as]\<rparr>
                  in case copy_dict d h1 of
                       (d', h2) \<Rightarrow> (Some d', h2\<lparr>dcts := (dcts h2)[d' := Some l']\<rparr>))
          else (Some d, h))"

text \<open>\<open>spec.setdefault("objects", [])\<close>; the result is the address of the list.\<close>

definition set_default_objects :: "nat \<Rightarrow> heap \<Rightarrow> nat \<times> heap" where
  "set_default_objects d h =
     (case dcts h ! d of
        Some l \<Rightarrow> (l, h)
      | None \<Rightarrow>
          (length (lsts h),
           h\<lparr>lsts := lsts h @ [[]], dcts := (dcts h)[d := Some (length (lsts h))]\<rparr>))"

text \<open>\<open>spec["objects"].extend(refs)\<close> on the list at \<open>l\<close>.\<close>

definition extend_list :: "nat \<Rightarrow> nat list \<Rightarrow> heap \<Rightarrow> heap" where
  "extend_list l refs h = h\<lparr>lsts := (lsts h)[l := lsts h ! l @ refs]\<rparr>"

text \<open>A mutator of the objects, run on the store.\<close>

definition on_objs ::
  "(obj list \<Rightarrow> py_error + obj list \<times> bool) \<Rightarrow> heap \<Rightarrow> py_error + heap \<times> bool" where
  "on_objs m h = bind_err (m (objs h)) (\<lambda>(os, c). Inr (h\<lparr>objs := os\<rparr>, c))"

text \<open>\<open>_find_targets\<close> as references into the list at \<open>l\<close>.\<close>

definition target_refs :: "heap \<Rightarrow> nat \<Rightarrow> string \<Rightarrow> bool \<Rightarrow> nat list" where
  "target_refs h l text fallback =
     map (\<lambda>i. lsts h ! l ! i) (target_indices (read_objs h (lsts h ! l)) text fallback)"

section \<open>The orchestrator\<close>

definition url_rx :: rx where
  "url_rx = seqs [lit ''http'', Opt (Cls ''s''), lit ''://'', plus_rx (NCls whitespace)]"

text \<open>
  The loop over the URLs of the text: the first URL that gives an external model ends
  the call.  \<open>None\<close>: no URL did.
\<close>

fun url_loop ::
  "pylib \<Rightarrow> string list \<Rightarrow> string \<Rightarrow> string \<Rightarrow> nat \<Rightarrow> nat \<Rightarrow> heap \<Rightarrow> py_error + heap option" where
  "url_loop L [] user_text lowered d l h = Inr None"
| "url_loop L (url # urls) user_text lowered d l h =
     bind_err (build_external_model L url user_text (Some (read_spec h d))) (\<lambda>external.
       case external of
         None \<Rightarrow> url_loop L urls user_text lowered d l h
       | Some ob \<Rightarrow>
           (case alloc_objs [ob] h of
              (refs, h1) \<Rightarrow>
                if lsts h ! l \<noteq> [] \<and> \<not> is_add_intent lowered
                then Inr (Some (h1\<lparr>lsts := lsts h1 @ [refs],
                                   dcts := (dcts h1)[d := Some (length (lsts h1))]\<rparr>))
                else Inr (Some (extend_list l refs h1))))"

text \<open>The five mutators in the order of the source; all of them run.\<close>

definition mutate_all :: "nat list \<Rightarrow> string \<Rightarrow> rat list \<Rightarrow> heap \<Rightarrow> py_error + heap \<times> bool" where
  "mutate_all targets lowered numbers h =
     bind_err (on_objs (\<lambda>os. apply_color_change os targets lowered) h) (\<lambda>(h1, c1).
     bind_err (on_objs (\<lambda>os. apply_dimension_change os targets lowered numbers) h1) (\<lambda>(h2, c2).
     bind_err (on_objs (\<lambda>os. apply_directional_move os targets lowered numbers) h2) (\<lambda>(h3, c3).
     bind_err (on_objs (\<lambda>os. apply_rotation_change os targets lowered numbers) h3) (\<lambda>(h4, c4).
     bind_err (on_objs (\<lambda>os. apply_scale_change os targets lowered numbers) h4) (\<lambda>(h5, c5).
       Inr (h5, c1 \<or> c2 \<or> c3 \<or> c4 \<or> c5))))))"

text \<open>The clone branch: every target is duplicated against the scene as it is, then the
  copies are appended and edited.\<close>

definition clone_targets ::
  "nat list \<Rightarrow> string \<Rightarrow> rat list \<Rightarrow> nat \<Rightarrow> nat \<Rightarrow> heap \<Rightarrow> py_error + heap" where
  "clone_targets targets lowered numbers d l h =
     bind_err (map_err (\<lambda>t. duplicate_object (objs h ! t) (Some (read_spec h d))) targets)
       (\<lambda>clones.
          case alloc_objs clones h of
            (refs, h1) \<Rightarrow>
              bind_err (mutate_all refs lowered numbers (extend_list l refs h1))
                (\<lambda>(h2, c). Inr h2))"

text \<open>
  \<open>_replace_object\<close>: \<open>spec["objects"].index(target)\<close> is the first position whose object
  equals the target.
\<close>

definition replace_object ::
  "nat \<Rightarrow> nat \<Rightarrow> nat \<Rightarrow> string \<Rightarrow> rat list \<Rightarrow> heap \<Rightarrow> py_error + heap \<times> bool" where
  "replace_object target d l text numbers h =
     (let new_type = detect_object_type text;
          tv = objs h ! target
      in if new_type = [] then Inr (h, False)
         else if new_type = type_str tv then Inr (h, False)
         else
           bind_err (default_params_for_type new_type text numbers) (\<lambda>ps.
           bind_err (ensure_transform tv) (\<lambda>t.
             let tv' = with_xf tv t;
                 h1 = h\<lparr>objs := (objs h)[target := tv']\<rparr>;
                 replacement = replacement_for tv' t (Some (read_spec h1 d)) text new_type ps
             in case first_match (\<lambda>a. obj_eq (objs h1 ! a) tv') (lsts h1 ! l) of
                  None \<Rightarrow> Inr (h1, False)
                | Some index \<Rightarrow>
                    (case alloc_objs [replacement] h1 of
                       (refs, h2) \<Rightarrow>
                         Inr (h2\<lparr>lsts := (lsts h2)[l := (lsts h2 ! l)[index := hd refs]]\<rparr>,
                              True)))))"

definition move_trigger :: "string list" where
  "move_trigger = [''move'', ''shift'', ''slide'', ''raise'', ''lower'', ''position'', ''place'']"

definition rotation_trigger :: "string list" where
  "rotation_trigger = [''rotate'', ''rotation'', ''twist'', ''spin'', ''turn'']"

text \<open>The new objects are appended, then moved, rotated and scaled as the text asks.\<close>

definition place_new :: "obj list \<Rightarrow> string \<Rightarrow> rat list \<Rightarrow> nat \<Rightarrow> heap \<Rightarrow> py_error + heap" where
  "place_new obs lowered numbers l h =
     (case alloc_objs obs h of
        (refs, h1) \<Rightarrow>
          let move_numbers = (if contains_any lowered move_trigger then numbers else []);
              rotation_numbers = (if contains_any lowered rotation_trigger then numbers else [])
          in bind_err (on_objs (\<lambda>os. apply_directional_move os refs lowered move_numbers)
                         (extend_list l refs h1)) (\<lambda>(h2, c2).
             bind_err (on_objs (\<lambda>os. apply_rotation_change os refs lowered rotation_numbers) h2)
               (\<lambda>(h3, c3).
             bind_err (on_objs (\<lambda>os. apply_scale_change os refs lowered numbers) h3)
               (\<lambda>(h4, c4). Inr h4))))"

definition add_objects ::
  "pylib \<Rightarrow> string \<Rightarrow> string \<Rightarrow> rat list \<Rightarrow> rat list \<Rightarrow> nat \<Rightarrow> nat \<Rightarrow> heap \<Rightarrow> py_error + heap"
  where
  "add_objects L user_text lowered numbers numbers_for_dims d l h =
     (let composite = build_composite_objects L user_text (Some (read_spec h d)) numbers_for_dims
      in if composite \<noteq> [] then place_new composite lowered numbers l h
         else bind_err (build_new_object user_text (Some (read_spec h d)) numbers_for_dims)
                (\<lambda>new_obj. place_new [new_obj] lowered numbers l h))"

text \<open>What \<open>run_local\<close> does once the scene is cloned and no URL gave a model.\<close>

definition edit_scene ::
  "pylib \<Rightarrow> string \<Rightarrow> string \<Rightarrow> rat list \<Rightarrow> rat list option \<Rightarrow> nat \<Rightarrow> nat \<Rightarrow> heap \<Rightarrow>
   py_error + heap" where
  "edit_scene L user_text lowered numbers position_hint d l h =
     (let numbers_for_dims =
            (case position_hint of
               None \<Rightarrow> numbers
             | Some hint \<Rightarrow> foldl (\<lambda>ns v. remove1 v ns) numbers hint);
          found = target_refs h l lowered False;
          targets = (if found = [] \<and> lsts h ! l \<noteq> [] \<and> \<not> is_add_intent lowered
                     then target_refs h l lowered True else found)
      in if targets \<noteq> [] \<and> contains_any lowered CLONE_KEYWORDS
         then clone_targets targets lowered numbers d l h
         else
           bind_err (if targets \<noteq> [] \<and> contains_any lowered REPLACE_KEYWORDS
                     then replace_object (hd targets) d l lowered numbers_for_dims h
                     else Inr (h, False)) (\<lambda>(h1, replaced).
             if replaced then Inr h1
             else
               bind_err (if targets \<noteq> [] then mutate_all targets lowered numbers h1
                         else Inr (h1, False)) (\<lambda>(h2, changed).
                 if changed then Inr h2
                 else if is_add_intent lowered \<or> lsts h2 ! l = [] \<or> targets = []
                 then add_objects L user_text lowered numbers numbers_for_dims d l h2
                 else Inr h2)))"

text \<open>
  \<open>run_local\<close>: the result is the reference of the returned scene and the store after
  the call, or the exception that the call raises.
\<close>

definition run_local :: "pylib \<Rightarrow> string \<Rightarrow> nat option \<Rightarrow> heap \<Rightarrow> py_error + nat \<times> heap" where
  "run_local L user_text existing_spec h0 =
     (let lowered = normalize user_text;
          numbers = extract_numbers lowered;
          position_hint = extract_position_triplet lowered
      in case clone_spec existing_spec h0 of
           (sp0, h1) \<Rightarrow>
             (case remove_ref lowered sp0 h1 of
                (sp1, h2) \<Rightarrow>
                  (case (case sp1 of None \<Rightarrow> new_scene [] h2 | Some d \<Rightarrow> (d, h2)) of
                     (d, h3) \<Rightarrow>
                       (case set_default_objects d h3 of
                          (l, h4) \<Rightarrow>
                            bind_err (url_loop L (re_findall url_rx user_text) user_text lowered
                                        d l h4) (\<lambda>external.
                              case external of
                                Some h5 \<Rightarrow> Inr (d, h5)
                              | None \<Rightarrow>
                                  bind_err (edit_scene L user_text lowered numbers position_hint
                                              d l h4) (\<lambda>h5. Inr (d, h5)))))))"

text \<open>
  \<open>build_spec\<close> when no language model is configured (\<open>have_gemini()\<close> is false): the
  scene of \<open>run_local\<close>, unless it is empty or a lone box; then the composite of the text
  or, without one, the seeded fallback takes its place.  The argument is the decoded
  scene; the result is the value of the returned scene.
\<close>

definition local_objects :: "string \<Rightarrow> pylib \<Rightarrow> obj list" where
  "local_objects user_text L =
     (let composite = build_composite_objects L user_text (Some \<lparr>objects = Some []\<rparr>)
                        (extract_numbers (normalize user_text))
      in if composite = [] then generic_synthesis user_text (Some \<lparr>objects = Some []\<rparr>)
         else composite)"

definition build_spec :: "pylib \<Rightarrow> string \<Rightarrow> nat option \<Rightarrow> heap \<Rightarrow> py_error + spec" where
  "build_spec L user_text existing h =
     bind_err (run_local L user_text existing h) (\<lambda>(d, h').
       let local = read_spec h' d
       in if get_objects local = [] then Inr \<lparr>objects = Some (local_objects user_text L)\<rparr>
          else if length (get_objects local) = 1 \<and>
                  py_lower (type_str (get_objects local ! 0)) = ''box''
          then Inr \<lparr>objects = Some (local_objects user_text L)\<rparr>
          else Inr local)"

text \<open>The value of the scene that a call returns.\<close>

definition result_scene :: "py_error + nat \<times> heap \<Rightarrow> py_error + spec" where
  "result_scene r = (case r of Inl e \<Rightarrow> Inl e | Inr (d, h) \<Rightarrow> Inr (read_spec h d))"

text \<open>Three callers: one holds the scene \<open>{"objects": []}\<close> at address 0, one holds no
  scene at all, one holds a scene of two boxes.\<close>

definition empty_scene_store :: heap where
  "empty_scene_store = \<lparr>objs = [], lsts = [[]], dcts = [Some 0]\<rparr>"

definition no_scene_store :: heap where
  "no_scene_store = \<lparr>objs = [], lsts = [], dcts = []\<rparr>"

definition plain_obj :: "string \<Rightarrow> string \<Rightarrow> obj" where
  "plain_obj i t = \<lparr>oid = Some i, otype = Some t, params = None, xform = None\<rparr>"

definition two_boxes :: heap where
  "two_boxes = \<lparr>objs = [plain_obj ''box1'' ''box'', plain_obj ''box2'' ''box''],
                 lsts = [[0, 1]], dcts = [Some 0]\<rparr>"

section \<open>Transform repair: properties\<close>

lemma repair_Vec: "repair d (Vec xs) = Inr (Vec (take 3 xs @ replicate (3 - length xs) d))"
proof (cases xs)
  case Nil
  then show ?thesis
    by (simp add: repair_def seq_len_def float_item_def bind_err_def numeral_3_eq_3)
next
  case c1: (Cons a as)
  show ?thesis
  proof (cases as)
    case Nil
    with c1 show ?thesis
      by (simp add: repair_def seq_len_def float_item_def bind_err_def numeral_3_eq_3)
  next
    case c2: (Cons b bs)
    show ?thesis
    proof (cases bs)
      case Nil
      with c1 c2 show ?thesis
        by (simp add: repair_def seq_len_def float_item_def bind_err_def numeral_3_eq_3)
    next
      case c3: (Cons c cs)
      with c1 c2 show ?thesis
        by (simp add: repair_def seq_len_def float_item_def bind_err_def numeral_3_eq_3)
    qed
  qed
qed

lemma length_fit: "length (take 3 xs @ replicate (3 - length xs) d) = 3"
  by simp

lemma repair_fixed: "length xs = 3 \<Longrightarrow> repair d (Vec xs) = Inr (Vec xs)"
  by (simp add: repair_def seq_len_def)

lemma ensure_transform_Vec:
  "ensure_transform (ob\<lparr>xform := Some \<lparr>position = Some (Vec p), rotation = Some (Vec r),
       scale = Some (Vec s)\<rparr>\<rparr>) =
     Inr (Vec (take 3 p @ replicate (3 - length p) 0),
          Vec (take 3 r @ replicate (3 - length r) 0),
          Vec (take 3 s @ replicate (3 - length s) 1))"
  by (simp add: ensure_transform_def get_position_def get_rotation_def get_scale_def
      repair_Vec bind_err_def)

text \<open>
  C6.  For an object whose position, rotation and scale are lists of any lengths (empty,
  too short, too long), \<open>_ensure_transform\<close> succeeds and leaves three lists of length
  exactly 3: the first (up to three) original values in order, then 0 for position and
  rotation and 1 for scale in the missing slots.  A second call on the repaired object
  returns the same transform and leaves the object as it is.
\<close>

theorem ensure_transform_repairs:
  "ensure_transform (ob\<lparr>xform := Some \<lparr>position = Some (Vec p), rotation = Some (Vec r),
       scale = Some (Vec s)\<rparr>\<rparr>) =
     Inr (Vec (take 3 p @ replicate (3 - length p) 0),
          Vec (take 3 r @ replicate (3 - length r) 0),
          Vec (take 3 s @ replicate (3 - length s) 1)) \<and>
   length (take 3 p @ replicate (3 - length p) (0::rat)) = 3 \<and>
   length (take 3 r @ replicate (3 - length r) (0::rat)) = 3 \<and>
   length (take 3 s @ replicate (3 - length s) (1::rat)) = 3 \<and>
   ensure_transform (with_xf ob (Vec (take 3 p @ replicate (3 - length p) 0),
          Vec (take 3 r @ replicate (3 - length r) 0),
          Vec (take 3 s @ replicate (3 - length s) 1))) =
     Inr (Vec (take 3 p @ replicate (3 - length p) 0),
          Vec (take 3 r @ replicate (3 - length r) 0),
          Vec (take 3 s @ replicate (3 - length s) 1)) \<and>
   with_xf (with_xf ob (Vec (take 3 p @ replicate (3 - length p) 0),
          Vec (take 3 r @ replicate (3 - length r) 0),
          Vec (take 3 s @ replicate (3 - length s) 1)))
        (Vec (take 3 p @ replicate (3 - length p) 0),
          Vec (take 3 r @ replicate (3 - length r) 0),
          Vec (take 3 s @ replicate (3 - length s) 1)) =
     with_xf ob (Vec (take 3 p @ replicate (3 - length p) 0),
          Vec (take 3 r @ replicate (3 - length r) 0),
          Vec (take 3 s @ replicate (3 - length s) 1))"
proof (intro conjI)
  show "ensure_transform (ob\<lparr>xform := Some \<lparr>position = Some (Vec p), rotation = Some (Vec r),
       scale = Some (Vec s)\<rparr>\<rparr>) =
     Inr (Vec (take 3 p @ replicate (3 - length p) 0),
          Vec (take 3 r @ replicate (3 - length r) 0),
          Vec (take 3 s @ replicate (3 - length s) 1))"
    by (rule ensure_transform_Vec)
next
  let ?p = "take 3 p @ replicate (3 - length p) (0::rat)"
  let ?r = "take 3 r @ replicate (3 - length r) (0::rat)"
  let ?s = "take 3 s @ replicate (3 - length s) (1::rat)"
  have lens: "length ?p = 3" "length ?r = 3" "length ?s = 3" by simp_all
  have "ensure_transform (with_xf ob (Vec ?p, Vec ?r, Vec ?s)) =
      Inr (Vec (take 3 ?p @ replicate (3 - length ?p) 0),
        Vec (take 3 ?r @ replicate (3 - length ?r) 0),
        Vec (take 3 ?s @ replicate (3 - length ?s) 1))"
    unfolding with_xf_def prod.case by (rule ensure_transform_Vec)
  also have "take 3 ?p @ replicate (3 - length ?p) 0 = ?p" using lens(1) by simp
  also have "take 3 ?r @ replicate (3 - length ?r) 0 = ?r" using lens(2) by simp
  also have "take 3 ?s @ replicate (3 - length ?s) 1 = ?s" using lens(3) by simp
  finally show "ensure_transform (with_xf ob (Vec ?p, Vec ?r, Vec ?s)) = Inr (Vec ?p, Vec ?r, Vec ?s)" .
qed (simp_all add: with_xf_def)

section \<open>Loops over targets\<close>

lemma for_each_distinct:
  assumes "distinct as" and "\<forall>a\<in>set as. a < length h"
    and "\<forall>a\<in>set as. \<exists>ob'. f (h ! a) = Inr ob'"
  shows "\<exists>h'. for_each f as h = Inr h' \<and> length h' = length h \<and>
           (\<forall>a<length h. Inr (h' ! a) = (if a \<in> set as then f (h ! a) else Inr (h ! a)))"
  using assms
proof (induction as arbitrary: h)
  case Nil
  then show ?case by simp
next
  case (Cons a as)
  from Cons.prems obtain ob where ob: "f (h ! a) = Inr ob" by auto
  let ?h1 = "h[a := ob]"
  have a: "a < length h" "a \<notin> set as" using Cons.prems by auto
  have same: "?h1 ! b = h ! b" if "b \<in> set as" for b
  proof -
    from that a have "a \<noteq> b" by blast
    then show ?thesis by simp
  qed
  have "\<exists>h'. for_each f as ?h1 = Inr h' \<and> length h' = length ?h1 \<and>
           (\<forall>b<length ?h1. Inr (h' ! b) = (if b \<in> set as then f (?h1 ! b) else Inr (?h1 ! b)))"
  proof (rule Cons.IH)
    show "distinct as" using Cons.prems by simp
    show "\<forall>a\<in>set as. a < length ?h1" using Cons.prems by simp
    show "\<forall>a\<in>set as. \<exists>ob'. f (?h1 ! a) = Inr ob'" using Cons.prems same by simp
  qed
  then obtain h' where h': "for_each f as ?h1 = Inr h'" "length h' = length h"
    "\<forall>b<length h. Inr (h' ! b) = (if b \<in> set as then f (?h1 ! b) else Inr (?h1 ! b))"
    by auto
  have "for_each f (a # as) h = Inr h'" using ob h'(1) by (simp add: bind_err_def)
  moreover have "\<forall>b<length h. Inr (h' ! b) = (if b \<in> set (a # as) then f (h ! b) else Inr (h ! b))"
  proof (intro allI impI)
    fix b assume b: "b < length h"
    show "Inr (h' ! b) = (if b \<in> set (a # as) then f (h ! b) else Inr (h ! b))"
    proof (cases "b = a")
      case True
      with h'(3) b a ob show ?thesis by simp
    next
      case False
      with h'(3) b same show ?thesis by auto
    qed
  qed
  ultimately show ?case using h'(2) by blast
qed

section \<open>Rotation mutator: properties\<close>

lemma starts_with_append: "starts_with (a @ b) s \<Longrightarrow> starts_with a s"
  by (induction a s rule: starts_with.induct) auto

lemma contains_append: "contains (a @ b) s \<Longrightarrow> contains a s"
proof (induction s)
  case Nil
  then show ?case by simp
next
  case (Cons c cs)
  then show ?case using starts_with_append [of a b "c # cs"] by auto
qed

lemma x_axis_x: "contains ''x-axis'' l \<Longrightarrow> contains ''x'' l"
  using contains_append [of "''x''" "''-axis''" l] by simp

lemma y_axis_y: "contains ''y-axis'' l \<Longrightarrow> contains ''y'' l"
  using contains_append [of "''y''" "''-axis''" l] by simp

lemma z_axis_z: "contains ''z-axis'' l \<Longrightarrow> contains ''z'' l"
  using contains_append [of "''z''" "''-axis''" l] by simp

lemma rotation_axis_char:
  "rotation_axis l =
     (if contains ''x'' l \<or> contains ''roll'' l then 0
      else if contains ''y'' l \<or> contains ''yaw'' l then 1
      else if contains ''z'' l \<or> contains ''pitch'' l then 2
      else 1)"
  using x_axis_x [of l] y_axis_y [of l] z_axis_z [of l]
  by (simp add: rotation_axis_def ROTATION_AXIS_HINTS_def)

lemma rotate_obj_Vec:
  "rotate_obj ax rad am (ob\<lparr>xform := Some \<lparr>position = Some (Vec p), rotation = Some (Vec r),
       scale = Some (Vec s)\<rparr>\<rparr>) =
     Inr (with_xf ob
       (Vec (take 3 p @ replicate (3 - length p) 0),
        Vec ((take 3 r @ replicate (3 - length r) 0)
               [ax := (if am then fadd ((take 3 r @ replicate (3 - length r) 0) ! ax) rad else rad)]),
        Vec (take 3 s @ replicate (3 - length s) 1)))"
  by (simp add: rotate_obj_def ensure_transform_Vec bind_err_def float_item_def set_item_def
      with_xf_def)

lemma apply_rotation_not_triggered:
  "\<not> contains_any (py_lower text) rotation_words \<Longrightarrow>
     apply_rotation_change h targets text numbers = Inr (h, False)"
  by (simp add: apply_rotation_change_def)

lemma apply_rotation_triggered:
  assumes "contains_any (py_lower text) rotation_words" and "distinct targets"
    and "\<forall>a\<in>set targets. a < length h \<and>
           (\<exists>ob'. rotate_obj (rotation_axis (py_lower text)) (math_radians (first_or numbers 90))
              (contains ''by'' (py_lower text) \<or> contains ''+='' (py_lower text)) (h ! a) = Inr ob')"
  shows "\<exists>h'. apply_rotation_change h targets text numbers = Inr (h', targets \<noteq> []) \<and>
           length h' = length h \<and>
           (\<forall>a<length h. Inr (h' ! a) =
              (if a \<in> set targets
               then rotate_obj (rotation_axis (py_lower text)) (math_radians (first_or numbers 90))
                      (contains ''by'' (py_lower text) \<or> contains ''+='' (py_lower text)) (h ! a)
               else Inr (h ! a)))"
proof -
  let ?f = "rotate_obj (rotation_axis (py_lower text)) (math_radians (first_or numbers 90))
              (contains ''by'' (py_lower text) \<or> contains ''+='' (py_lower text))"
  have "\<exists>h'. for_each ?f targets h = Inr h' \<and> length h' = length h \<and>
           (\<forall>a<length h. Inr (h' ! a) = (if a \<in> set targets then ?f (h ! a) else Inr (h ! a)))"
    using assms(2,3) by (intro for_each_distinct) auto
  then obtain h' where h': "for_each ?f targets h = Inr h'" "length h' = length h"
    "\<forall>a<length h. Inr (h' ! a) = (if a \<in> set targets then ?f (h ! a) else Inr (h ! a))"
    by blast
  have "apply_rotation_change h targets text numbers = Inr (h', targets \<noteq> [])"
    using assms(1) h'(1) by (simp add: apply_rotation_change_def bind_err_def)
  with h'(2,3) show ?thesis by blast
qed

definition sample_box :: obj where
  "sample_box = \<lparr>oid = Some ''box1'', otype = Some ''box'',
     params = Some [(''width'', Num 10), (''depth'', Num 10), (''height'', Num 10)],
     xform = Some default_transform\<rparr>"

text \<open>
  C9.  The axis does not follow the hints of the table.  The hints are tested as
  substrings of the text, in the order of the table, and the first one that occurs
  decides: \<open>x\<close> occurs in the word \<open>axis\<close> and \<open>y\<close> in the word \<open>by\<close>.  So a text that
  names the z-axis or the y-axis selects axis 0, and a text with \<open>by\<close> (the additive
  mode) selects axis 1 although it asks for z; the entries \<open>y-axis\<close> and \<open>z-axis\<close> of
  the table are never reached.  On a box with the default transform, \<open>rotate it about
  the z-axis\<close> sets the x entry of the rotation to the default angle, 90 degrees in
  radians (the double nearest to \<open>\<pi>/2\<close>), and leaves the z entry 0.
\<close>

theorem rotation_axis_hint_defect:
  "rotation_axis ''rotate 30 degrees about the z-axis'' = 0 \<and>
   rotation_axis ''spin it around the y-axis'' = 0 \<and>
   rotation_axis ''rotate by 45 about z'' = 1 \<and>
   apply_rotation_change [sample_box] [0] ''rotate it about the z-axis'' [] =
     Inr ([sample_box\<lparr>xform := Some \<lparr>position = Some (Vec [0, 0, 0]),
                                       rotation = Some (Vec [math_pi / 2, 0, 0]),
                                       scale = Some (Vec [1, 1, 1])\<rparr>\<rparr>], True)"
  by code_simp

section \<open>Removal handler: properties\<close>







section \<open>Target resolver: properties\<close>

lemma insort_key_stable:
  fixes f :: "nat \<Rightarrow> int"
  assumes "sorted_wrt (\<lambda>i j. f i < f j \<or> (f i = f j \<and> i < j)) xs" and "\<forall>y\<in>set xs. x < y"
  shows "sorted_wrt (\<lambda>i j. f i < f j \<or> (f i = f j \<and> i < j)) (insort_key f x xs)"
  using assms
proof (induction xs)
  case Nil
  then show ?case by simp
next
  case (Cons y ys)
  show ?case
  proof (cases "f x \<le> f y")
    case True
    have "f x < f z \<or> (f x = f z \<and> x < z)" if "z \<in> set (y # ys)" for z
    proof -
      have "f y \<le> f z" using that Cons.prems(1) by auto
      moreover have "x < z" using that Cons.prems(2) by auto
      ultimately show ?thesis using True by auto
    qed
    with True Cons.prems(1) show ?thesis by simp
  next
    case False
    have "sorted_wrt (\<lambda>i j. f i < f j \<or> (f i = f j \<and> i < j)) (insort_key f x ys)"
      using Cons.IH Cons.prems by simp
    moreover have "f y < f z \<or> (f y = f z \<and> y < z)" if "z \<in> set (insort_key f x ys)" for z
      using that False Cons.prems(1) by (auto simp: set_insort_key)
    ultimately show ?thesis using False by simp
  qed
qed

lemma sort_key_stable:
  fixes f :: "nat \<Rightarrow> int"
  assumes "sorted_wrt (<) xs"
  shows "sorted_wrt (\<lambda>i j. f i < f j \<or> (f i = f j \<and> i < j)) (sort_key f xs)"
  using assms
proof (induction xs)
  case Nil
  then show ?case by simp
next
  case (Cons x xs)
  have "sorted_wrt (\<lambda>i j. f i < f j \<or> (f i = f j \<and> i < j)) (insort_key f x (sort_key f xs))"
  proof (rule insort_key_stable)
    show "sorted_wrt (\<lambda>i j. f i < f j \<or> (f i = f j \<and> i < j)) (sort_key f xs)"
      using Cons by simp
    show "\<forall>y\<in>set (sort_key f xs). x < y" using Cons.prems by simp
  qed
  then show ?case by simp
qed

lemma sum_list_if_count:
  "(\<Sum>x\<leftarrow>xs. if P x then (2::int) else 0) = 2 * int (length (filter P xs))"
  by (induction xs) auto

lemma ordinal_bonus_count:
  "ordinal_bonus lowered n idx =
     2 * int (length (filter (\<lambda>(word, ordinal_index). contains word lowered \<and>
           (if 0 \<le> ordinal_index then ordinal_index else int n - 1) = int idx) ORDINAL_KEYWORDS))"
proof -
  have "ordinal_bonus lowered n idx =
      (\<Sum>x\<leftarrow>ORDINAL_KEYWORDS. if (case x of (word, ordinal_index) \<Rightarrow> contains word lowered \<and>
           (if 0 \<le> ordinal_index then ordinal_index else int n - 1) = int idx) then (2::int) else 0)"
    unfolding ordinal_bonus_def by (rule arg_cong [where f = sum_list]) (auto split: prod.splits)
  then show ?thesis by (simp only: sum_list_if_count)
qed

lemma first_match_None_set: "first_match P xs = None \<Longrightarrow> \<forall>x\<in>set xs. \<not> P x"
  by (induction xs) (auto split: if_splits)

lemma color_bonus_char:
  "color_bonus colors ob =
     (if py_lower (color_str ob) = [] then 0
      else case first_match (\<lambda>c. c = py_lower (color_str ob)) colors of
             Some k \<Rightarrow> max 1 (6 - min (int k) 5)
           | None \<Rightarrow> 0)"
proof (cases "first_match (\<lambda>c. c = py_lower (color_str ob)) colors")
  case None
  from first_match_None_set [OF None] have "py_lower (color_str ob) \<notin> set colors" by auto
  with None show ?thesis by (simp add: color_bonus_def)
next
  case (Some k)
  then show ?thesis by (simp add: color_bonus_def)
qed

lemma target_indices_some:
  assumes "obs \<noteq> []" and "\<exists>i<length obs. 0 < target_score text obs i"
  shows "set (target_indices obs text fb) = {i. i < length obs \<and> 0 < target_score text obs i} \<and>
         distinct (target_indices obs text fb) \<and>
         sorted_wrt (\<lambda>i j. target_score text obs j < target_score text obs i \<or>
             (target_score text obs i = target_score text obs j \<and> i < j))
           (target_indices obs text fb)"
proof -
  let ?m = "filter (\<lambda>i. 0 < target_score text obs i) [0..<length obs]"
  let ?f = "\<lambda>i. - target_score text obs i"
  from assms(2) have ne: "?m \<noteq> []" by (auto simp: filter_empty_conv)
  with assms(1) have r: "target_indices obs text fb = sort_key ?f ?m"
    by (simp add: target_indices_def)
  have "sorted_wrt (<) ?m" by (rule sorted_wrt_filter) simp
  then have "sorted_wrt (\<lambda>i j. ?f i < ?f j \<or> (?f i = ?f j \<and> i < j)) (sort_key ?f ?m)"
    by (rule sort_key_stable)
  then have "sorted_wrt (\<lambda>i j. target_score text obs j < target_score text obs i \<or>
             (target_score text obs i = target_score text obs j \<and> i < j)) (sort_key ?f ?m)"
    by (rule sorted_wrt_mono_rel [rotated]) auto
  moreover have "distinct (sort_key ?f ?m)" by simp
  moreover have "set (sort_key ?f ?m) = {i. i < length obs \<and> 0 < target_score text obs i}"
    by auto
  ultimately show ?thesis unfolding r by blast
qed

lemma target_indices_none:
  assumes "obs \<noteq> []" and "\<forall>i<length obs. \<not> 0 < target_score text obs i"
  shows "target_indices obs text fb = (if fb then [length obs - 1] else [])"
proof -
  from assms(2) have "filter (\<lambda>i. 0 < target_score text obs i) [0..<length obs] = []"
    by (auto simp: filter_empty_conv)
  with assms(1) show ?thesis by (simp add: target_indices_def)
qed

text \<open>
  C3 (as the code has it).  The score of an object is the sum of: 5 when its non-empty
  id, lowered, occurs in the lowered text; 3 when its non-empty lowered type has a
  synonym (for a type outside the table: the type name itself) occurring in the text;
  \<open>max(1, 6 - min(k, 5))\<close> when its lowered colour is mentioned in the text, \<open>k\<close> being
  the index of the first mention of that colour (the branch "+3 for any mentioned
  colour" is never reached); and 2 for every ordinal word occurring in the text whose
  index (a negative one means the last object) is the position of the object.  For a
  non-empty scene the result holds exactly the objects with a positive score, each once,
  in descending order of score, objects of equal score in scene order; when no object
  has a positive score it is the last object alone if the fallback is set and empty
  otherwise.  For an empty or absent scene it is empty.
\<close>

theorem find_targets_scoring:
  "target_score text obs idx =
     id_bonus (py_lower text) (obs ! idx) + type_bonus (py_lower text) (obs ! idx) +
     color_bonus (mentioned_colors text) (obs ! idx) +
     ordinal_bonus (py_lower text) (length obs) idx \<and>
   id_bonus lowered ob =
     (if py_lower (id_str ob) \<noteq> [] \<and> contains (py_lower (id_str ob)) lowered then 5 else 0) \<and>
   type_bonus lowered ob =
     (if py_lower (type_str ob) \<noteq> [] \<and> match_type (py_lower (type_str ob)) lowered
      then 3 else 0) \<and>
   color_bonus colors ob =
     (if py_lower (color_str ob) = [] then 0
      else case first_match (\<lambda>c. c = py_lower (color_str ob)) colors of
             Some k \<Rightarrow> max 1 (6 - min (int k) 5)
           | None \<Rightarrow> 0) \<and>
   ordinal_bonus lowered n idx =
     2 * int (length (filter (\<lambda>(word, ordinal_index). contains word lowered \<and>
           (if 0 \<le> ordinal_index then ordinal_index else int n - 1) = int idx) ORDINAL_KEYWORDS)) \<and>
   (obs \<noteq> [] \<and> (\<exists>i<length obs. 0 < target_score text obs i) \<longrightarrow>
      set (target_indices obs text fb) = {i. i < length obs \<and> 0 < target_score text obs i} \<and>
      distinct (target_indices obs text fb) \<and>
      sorted_wrt (\<lambda>i j. target_score text obs j < target_score text obs i \<or>
             (target_score text obs i = target_score text obs j \<and> i < j))
        (target_indices obs text fb)) \<and>
   (obs \<noteq> [] \<and> (\<forall>i<length obs. \<not> 0 < target_score text obs i) \<longrightarrow>
      target_indices obs text fb = (if fb then [length obs - 1] else [])) \<and>
   (obs = [] \<longrightarrow> target_indices obs text fb = []) \<and>
   find_targets sp text fb =
     map (\<lambda>i. spec_objects sp ! i) (target_indices (spec_objects sp) text fb)"
proof (intro conjI impI)
  show "target_score text obs idx =
     id_bonus (py_lower text) (obs ! idx) + type_bonus (py_lower text) (obs ! idx) +
     color_bonus (mentioned_colors text) (obs ! idx) +
     ordinal_bonus (py_lower text) (length obs) idx"
    by (simp add: target_score_def Let_def)
  show "id_bonus lowered ob =
     (if py_lower (id_str ob) \<noteq> [] \<and> contains (py_lower (id_str ob)) lowered then 5 else 0)"
    by (simp add: id_bonus_def Let_def)
  show "type_bonus lowered ob =
     (if py_lower (type_str ob) \<noteq> [] \<and> match_type (py_lower (type_str ob)) lowered
      then 3 else 0)"
    by (simp add: type_bonus_def Let_def)
  show "color_bonus colors ob =
     (if py_lower (color_str ob) = [] then 0
      else case first_match (\<lambda>c. c = py_lower (color_str ob)) colors of
             Some k \<Rightarrow> max 1 (6 - min (int k) 5)
           | None \<Rightarrow> 0)"
    by (rule color_bonus_char)
  show "ordinal_bonus lowered n idx =
     2 * int (length (filter (\<lambda>(word, ordinal_index). contains word lowered \<and>
           (if 0 \<le> ordinal_index then ordinal_index else int n - 1) = int idx) ORDINAL_KEYWORDS))"
    by (rule ordinal_bonus_count)
  show "find_targets sp text fb =
     map (\<lambda>i. spec_objects sp ! i) (target_indices (spec_objects sp) text fb)"
    by (simp add: find_targets_def)
  show "target_indices obs text fb = []" if "obs = []"
    using that by (simp add: target_indices_def)
  show "target_indices obs text fb = (if fb then [length obs - 1] else [])"
    if "obs \<noteq> [] \<and> (\<forall>i<length obs. \<not> 0 < target_score text obs i)"
    using that target_indices_none [of obs "text" fb] by blast
next
  assume a: "obs \<noteq> [] \<and> (\<exists>i<length obs. 0 < target_score text obs i)"
  note r = target_indices_some [of obs "text" fb]
  show "set (target_indices obs text fb) = {i. i < length obs \<and> 0 < target_score text obs i}"
    using a r by blast
  show "distinct (target_indices obs text fb)" using a r by blast
  show "sorted_wrt (\<lambda>i j. target_score text obs j < target_score text obs i \<or>
             (target_score text obs i = target_score text obs j \<and> i < j))
        (target_indices obs text fb)"
    using a r by blast
qed

definition color_obj :: "string \<Rightarrow> string \<Rightarrow> string \<Rightarrow> obj" where
  "color_obj i t c = \<lparr>oid = Some i, otype = Some t, params = Some [(''color'', Str c)], xform = None\<rparr>"

definition three_objs :: "obj list" where
  "three_objs = [color_obj ''box1'' ''box'' ''#ff4b5c'', color_obj ''sph1'' ''sphere'' ''#3d7eff'',
                 color_obj ''box2'' ''box'' ''#3d7eff'']"

theorem find_targets_scoring_witness:
  "three_objs \<noteq> [] \<and> (\<exists>i<length three_objs. 0 < target_score ''make the blue box red'' three_objs i) \<and>
   set (target_indices three_objs ''make the blue box red'' False) =
      {i. i < length three_objs \<and> 0 < target_score ''make the blue box red'' three_objs i} \<and>
   distinct (target_indices three_objs ''make the blue box red'' False) \<and>
   sorted_wrt (\<lambda>i j. target_score ''make the blue box red'' three_objs j
                      < target_score ''make the blue box red'' three_objs i \<or>
             (target_score ''make the blue box red'' three_objs i
                = target_score ''make the blue box red'' three_objs j \<and> i < j))
        (target_indices three_objs ''make the blue box red'' False)"
proof -
  have ne: "three_objs \<noteq> []" by (simp add: three_objs_def)
  have "0 < target_score ''make the blue box red'' three_objs 0" by code_simp
  moreover have "0 < length three_objs" by (simp add: three_objs_def)
  ultimately have ex: "\<exists>i<length three_objs. 0 < target_score ''make the blue box red'' three_objs i"
    by blast
  from find_targets_scoring [of "''make the blue box red''" three_objs 0 "[]" "color_obj [] [] []"
      "[]" 0 False None] ne ex
  show ?thesis by blast
qed

text \<open>
  The id is compared after lowering it: the object below has the id \<open>Box1\<close>, which does
  not occur in the lowered text, no type, no colour, and the text has no ordinal word;
  still the object is a target.
\<close>

theorem find_targets_scoring_counterexample:
  "\<not> contains (id_str \<lparr>oid = Some ''Box1'', otype = None, params = None, xform = None\<rparr>)
       (py_lower ''move Box1'') \<and>
   type_str \<lparr>oid = Some ''Box1'', otype = None, params = None, xform = None\<rparr> = [] \<and>
   color_str \<lparr>oid = Some ''Box1'', otype = None, params = None, xform = None\<rparr> = [] \<and>
   filter (\<lambda>(word, ordinal_index). contains word (py_lower ''move Box1'')) ORDINAL_KEYWORDS = [] \<and>
   find_targets (Some \<lparr>objects = Some [\<lparr>oid = Some ''Box1'', otype = None, params = None, xform = None\<rparr>]\<rparr>)
       ''move Box1'' False =
     [\<lparr>oid = Some ''Box1'', otype = None, params = None, xform = None\<rparr>]"
proof -
  let ?ob = "\<lparr>oid = Some ''Box1'', otype = None, params = None, xform = None\<rparr>"
  have l: "py_lower ''move Box1'' = ''move box1''" by code_simp
  have 1: "\<not> contains (id_str ?ob) (py_lower ''move Box1'')"
    unfolding l by (simp add: id_str_def)
  have 2: "filter (\<lambda>(word, ordinal_index). contains word (py_lower ''move Box1'')) ORDINAL_KEYWORDS = []"
    unfolding l by (simp add: ORDINAL_KEYWORDS_def)
  have 3: "target_score ''move Box1'' [?ob] 0 = 5" by code_simp
  have "target_indices [?ob] ''move Box1'' False = [0]"
    by (simp add: target_indices_def 3)
  then have 4: "find_targets (Some \<lparr>objects = Some [?ob]\<rparr>) ''move Box1'' False = [?ob]"
    by (simp add: find_targets_def spec_objects_def get_objects_def)
  show ?thesis using 1 2 4 by (simp add: type_str_def color_str_def)
qed

section \<open>Rounding: bounds\<close>

lemma pow2_powi: "pow2 e = (2::rat) powi e"
  by (simp add: pow2_def power_int_def field_simps)

lemma pow2_pos: "0 < pow2 e"
  by (simp add: pow2_powi)

lemma pow2_diff: "pow2 (a - b) = pow2 a / pow2 b"
  by (simp add: pow2_powi power_int_diff)

lemma ilog2_le:
  assumes "0 < x"
  shows "pow2 (ilog2 x) \<le> x"
proof -
  obtain p q where pq: "quotient_of x = (p, q)" by (cases "quotient_of x")
  then have q: "0 < q" and x: "x = of_int p / of_int q"
    by (auto dest: quotient_of_denom_pos quotient_of_div)
  from assms x q have p: "0 < p" by (simp add: zero_less_divide_iff)
  let ?a = "bitlen p - bitlen q"
  show ?thesis
  proof (cases "pow2 ?a \<le> x")
    case True
    then show ?thesis by (simp add: ilog2_def pq)
  next
    case False
    have bp: "1 \<le> bitlen p" using p by (simp add: bitlen_alt_def)
    have bq: "1 \<le> bitlen q" using q by (simp add: bitlen_alt_def)
    from bitlen_bounds [OF p] have "2 ^ nat (bitlen p - 1) \<le> p" by simp
    then have "(of_int (2 ^ nat (bitlen p - 1)) :: rat) \<le> of_int p" by (simp only: of_int_le_iff)
    then have lp: "(2::rat) powi (bitlen p - 1) \<le> of_int p"
      using bp by (simp add: power_int_def)
    from bitlen_bounds [OF q] have "q < 2 ^ nat (bitlen q)" by simp
    then have "(of_int q :: rat) < of_int (2 ^ nat (bitlen q))" by (simp only: of_int_less_iff)
    then have lq: "of_int q < (2::rat) powi (bitlen q)"
      using bq by (simp add: power_int_def)
    have "pow2 (?a - 1) = (2::rat) powi (bitlen p - 1) / 2 powi (bitlen q)"
      by (simp add: pow2_powi power_int_diff [symmetric] algebra_simps)
    also have "\<dots> \<le> of_int p / 2 powi (bitlen q)"
      using lp by (simp add: divide_right_mono)
    also have "\<dots> \<le> of_int p / of_int q"
      using lq p q by (simp add: frac_le)
    finally have "pow2 (?a - 1) \<le> x" using x by simp
    with False show ?thesis by (simp add: ilog2_def pq)
  qed
qed

lemma rne_upper: "of_int (rne y) \<le> y + 1 / 2"
proof -
  have f: "of_int \<lfloor>y\<rfloor> \<le> y" by simp
  consider "y - of_int \<lfloor>y\<rfloor> < 1 / 2" | "1 / 2 < y - of_int \<lfloor>y\<rfloor>"
    | "y - of_int \<lfloor>y\<rfloor> = 1 / 2" by linarith
  then show ?thesis
  proof cases
    case 1
    then have "(of_int (rne y) :: rat) = of_int \<lfloor>y\<rfloor>" by (simp add: rne_def Let_def)
    with f show ?thesis by linarith
  next
    case 2
    then have "(of_int (rne y) :: rat) = of_int \<lfloor>y\<rfloor> + 1" by (simp add: rne_def Let_def)
    with 2 show ?thesis by linarith
  next
    case 3
    then have "(of_int (rne y) :: rat) = of_int \<lfloor>y\<rfloor> \<or>
        (of_int (rne y) :: rat) = of_int \<lfloor>y\<rfloor> + 1"
      by (simp add: rne_def Let_def)
    with 3 f show ?thesis by linarith
  qed
qed

lemma pow2_52: "pow2 52 = 2 ^ 52"
  by (simp add: pow2_def)

lemma rne_nonneg: "0 \<le> y \<Longrightarrow> 0 \<le> rne y"
  by (auto simp: rne_def Let_def)

lemma fl_nonneg: "0 \<le> x \<Longrightarrow> 0 \<le> fl x"
proof -
  assume x: "0 \<le> x"
  show ?thesis
  proof (cases "x = 0")
    case True
    then show ?thesis by (simp add: fl_def)
  next
    case False
    let ?u = "pow2 (ilog2 \<bar>x\<bar> - 52)"
    have "0 \<le> x / ?u" using x pow2_pos [of "ilog2 \<bar>x\<bar> - 52"] by simp
    then have "0 \<le> rne (x / ?u)" by (rule rne_nonneg)
    then have "0 \<le> (of_int (rne (x / ?u)) :: rat) * ?u"
      using pow2_pos [of "ilog2 \<bar>x\<bar> - 52"] by simp
    with False show ?thesis by (simp add: fl_def Let_def)
  qed
qed

lemma fl_upper:
  assumes "0 < x"
  shows "fl x \<le> x + x / 2 ^ 53"
proof -
  let ?u = "pow2 (ilog2 \<bar>x\<bar> - 52)"
  have u: "0 < ?u" by (rule pow2_pos)
  have "\<bar>x\<bar> = x" using assms by simp
  then have "?u = pow2 (ilog2 x) / 2 ^ 52" by (simp only: pow2_diff pow2_52)
  also have "\<dots> \<le> x / 2 ^ 52" using ilog2_le [OF assms] by (simp add: divide_right_mono)
  finally have ux: "?u \<le> x / 2 ^ 52" .
  have "fl x = of_int (rne (x / ?u)) * ?u" using assms by (simp add: fl_def Let_def)
  also have "\<dots> \<le> (x / ?u + 1 / 2) * ?u"
    using rne_upper [of "x / ?u"] u by (simp add: mult_right_mono)
  also have "\<dots> = x + ?u / 2" using u by (simp add: field_simps)
  also have "\<dots> \<le> x + (x / 2 ^ 52) / 2" using ux by simp
  also have "\<dots> = x + x / 2 ^ 53" by simp
  finally show ?thesis .
qed

section \<open>Seeded fallback synthesis: properties\<close>

lemma rand_bits_bound: "uint (rand_bits seed) \<le> 2 ^ 53 - 1"
proof -
  obtain x where "rand_bits seed = x AND (2 ^ 53 - 1)" by (simp add: rand_bits_def Let_def)
  moreover have "x AND (2 ^ 53 - 1) \<le> (2 ^ 53 - 1 :: 64 word)" by (rule word_and_le1)
  ultimately have "uint (rand_bits seed) \<le> uint (2 ^ 53 - 1 :: 64 word)"
    by (simp add: word_le_def)
  then show ?thesis by simp
qed

lemma rand01_range: "0 \<le> rand01 seed \<and> rand01 seed \<le> 1 - 1 / 2 ^ 53"
proof -
  have "(of_int (uint (rand_bits seed)) :: rat) \<le> of_int (2 ^ 53 - 1)"
    using rand_bits_bound [of seed] by (simp only: of_int_le_iff)
  then have "rand01 seed \<le> (2 ^ 53 - 1) / 2 ^ 53"
    by (simp add: rand01_def divide_right_mono)
  moreover have "0 \<le> rand01 seed"
  proof -
    have "0 \<le> uint (rand_bits seed)" by simp
    then have "(0::rat) \<le> of_int (uint (rand_bits seed))" by (simp only: of_int_0_le_iff)
    then show ?thesis unfolding rand01_def by (rule divide_nonneg_nonneg) simp
  qed
  ultimately show ?thesis by simp
qed

lemma synth_count_range: "3 \<le> synth_count seed \<and> synth_count seed \<le> 5"
proof -
  let ?x = "rand01 seed * 3"
  from rand01_range [of seed] have x0: "0 \<le> ?x" and x3: "?x \<le> 3 - 3 / 2 ^ 53" by simp_all
  have f0: "0 \<le> fl ?x" using x0 by (rule fl_nonneg)
  have f3: "fl ?x < 3"
  proof (cases "?x = 0")
    case True
    then show ?thesis by (simp add: fl_def)
  next
    case False
    with x0 have pos: "0 < ?x" by simp
    have "fl ?x \<le> ?x + ?x / 2 ^ 53" using pos by (rule fl_upper)
    also have "\<dots> = ?x * (1 + 1 / 2 ^ 53)" by (simp add: algebra_simps)
    also have "\<dots> \<le> (3 - 3 / 2 ^ 53) * (1 + 1 / 2 ^ 53)"
      using x3 by (intro mult_right_mono) simp_all
    also have "\<dots> < 3" by simp
    finally show ?thesis .
  qed
  have "\<lfloor>fl ?x\<rfloor> \<le> 2" using f3 by (simp add: floor_le_iff)
  then have "nat \<lfloor>fl ?x\<rfloor> \<le> 2" by linarith
  moreover have "py_int (fl ?x) = \<lfloor>fl ?x\<rfloor>" using f0 by (simp add: py_int_def)
  ultimately show ?thesis by (simp add: synth_count_def fmul_def)
qed













section \<open>The orchestrator: scenarios\<close>

lemma run_local_add_red_box:
  "run_local L ''add a red box'' (Some 0) empty_scene_store =
     Inr (1, \<lparr>objs = [\<lparr>oid = Some ''box1'', otype = Some ''box'',
                        params = Some [(''width'', Num 10), (''depth'', Num 10),
                                       (''height'', Num 10), (''color'', Str ''#ff4b5c'')],
                        xform = Some \<lparr>position = Some (Vec [0, 0, 0]),
                                      rotation = Some (Vec [0, 0, 0]),
                                      scale = Some (Vec [1, 1, 1])\<rparr>\<rparr>],
               lsts = [[], [0]], dcts = [Some 0, Some 1]\<rparr>)"
  by code_simp

lemma no_composite_red_box:
  "build_composite_objects L ''add a red box'' (Some \<lparr>objects = Some []\<rparr>)
     (extract_numbers (normalize ''add a red box'')) = []"
  by code_simp

text \<open>
  C10.  \<open>run_local\<close> on the text \<open>add a red box\<close> and the scene \<open>{"objects": []}\<close> returns a
  scene of exactly one object: a box with the id \<open>box1\<close>, the default dimensions 10, 10, 10,
  the colour \<open>#ff4b5c\<close> and the default transform.  This holds whatever the library
  functions are.
\<close>

theorem add_red_box_scenario:
  "result_scene (run_local L ''add a red box'' (Some 0) empty_scene_store) =
     Inr \<lparr>objects = Some
       [\<lparr>oid = Some ''box1'', otype = Some ''box'',
         params = Some [(''width'', Num 10), (''depth'', Num 10), (''height'', Num 10),
                        (''color'', Str ''#ff4b5c'')],
         xform = Some \<lparr>position = Some (Vec [0, 0, 0]), rotation = Some (Vec [0, 0, 0]),
                       scale = Some (Vec [1, 1, 1])\<rparr>\<rparr>]\<rparr>"
  unfolding run_local_add_red_box
  by (simp add: result_scene_def read_spec_def read_objs_def)

text \<open>
  \<open>build_spec\<close> without a language model does not return that scene: a lone box is
  replaced by the composite of the text or, as here, by the seeded fallback, which has
  at least three objects.
\<close>

theorem add_red_box_counterexample:
  "\<forall>L. \<exists>obs. build_spec L ''add a red box'' (Some 0) empty_scene_store =
              Inr \<lparr>objects = Some obs\<rparr> \<and> 3 \<le> length obs"
proof
  fix L
  have "build_spec L ''add a red box'' (Some 0) empty_scene_store =
          Inr \<lparr>objects = Some (generic_synthesis ''add a red box'' (Some \<lparr>objects = Some []\<rparr>))\<rparr>"
    unfolding build_spec_def run_local_add_red_box
    by (simp add: bind_err_def read_spec_def read_objs_def get_objects_def type_str_def
        local_objects_def no_composite_red_box Let_def py_lower_def lower_char_def)
  moreover have "3 \<le> length (generic_synthesis ''add a red box'' (Some \<lparr>objects = Some []\<rparr>))"
    using synth_count_range [of "seed_from_text ''add a red box''"]
    by (simp add: generic_synthesis_def Let_def)
  ultimately show "\<exists>obs. build_spec L ''add a red box'' (Some 0) empty_scene_store =
              Inr \<lparr>objects = Some obs\<rparr> \<and> 3 \<le> length obs"
    by blast
qed

text \<open>
  C4.  Ids do not stay distinct.  The scene of the two boxes \<open>box1\<close> and \<open>box2\<close> has
  distinct ids; \<open>duplicate the box\<close> selects both boxes, and both copies get the id
  \<open>box3\<close>, because each id is generated against the scene without the other copy.
\<close>

theorem clone_two_targets_same_id:
  "distinct (map id_str (get_objects (read_spec two_boxes 0))) \<and>
   map_sum id (\<lambda>s. map id_str (get_objects s))
     (result_scene (run_local L ''duplicate the box'' (Some 0) two_boxes)) =
   Inr [''box1'', ''box2'', ''box3'', ''box3'']"
  by code_simp

text \<open>
  C1.  \<open>run_local\<close> raises on some texts, and so does \<open>build_spec\<close>, which calls it
  outside any \<open>try\<close>.  The recipe of the tracked robot stores a colour string as the
  rotation of the hull; the rotation mutator then repairs the transform and
  \<open>float("#")\<close> raises \<open>ValueError\<close>.  No scene is supplied here.
\<close>

theorem run_local_raises:
  "run_local L ''rotate a tank robot'' None no_scene_store = Inl ValueError \<and>
   build_spec L ''rotate a tank robot'' None no_scene_store = Inl ValueError"
  by code_simp

end
